theory Spec2Isabelle
  imports Complex_Main "HOL-Library.AList" "HOL-Library.Char_ord" "HOL-Library.List_Lexorder"
begin

section \<open>Python values, strings and exceptions\<close>

text \<open>
  The three handlers of SafeSite exchange JSON documents and table items. A value is one
  of the shapes that \<^verbatim>\<open>json.loads\<close> and the table client hand to the code. A float is
  carried as the number its \<^verbatim>\<open>repr\<close> prints (or one of the special values), a
  \<^verbatim>\<open>Decimal\<close> as the number it denotes; a dict is an association list read with
  \<^const>\<open>map_of\<close>. Strings are lists of ASCII characters.
\<close>

datatype pynum = Finite rat | Infinity bool | NaN

datatype pyval =
    PNone
  | PBool bool
  | PInt int
  | PFloat pynum
  | PDecimal pynum
  | PStr string
  | PList "pyval list"
  | PDict "(string \<times> pyval) list"

datatype exn_kind =
  KeyError | TypeError | AttributeError | ValueError | OverflowError | ServiceError

datatype exn = Raised exn_kind string

primrec message :: "exn \<Rightarrow> string" where
  "message (Raised k m) = m"

text \<open>Truth value testing, as \<^verbatim>\<open>if x:\<close> and \<^verbatim>\<open>not x\<close> do it.\<close>

fun truthy :: "pyval \<Rightarrow> bool" where
  "truthy PNone = False"
| "truthy (PBool b) = b"
| "truthy (PInt i) = (i \<noteq> 0)"
| "truthy (PFloat x) = (x \<noteq> Finite 0)"
| "truthy (PDecimal x) = (x \<noteq> Finite 0)"
| "truthy (PStr s) = (s \<noteq> [])"
| "truthy (PList xs) = (xs \<noteq> [])"
| "truthy (PDict kvs) = (kvs \<noteq> [])"

text \<open>\<^verbatim>\<open>obj[key]\<close> with a string key: only a dict holding the key answers.\<close>

definition subscript :: "pyval \<Rightarrow> string \<Rightarrow> exn + pyval" where
  "subscript obj k =
     (case obj of
        PDict kvs \<Rightarrow>
          (case map_of kvs k of Some v \<Rightarrow> Inr v | None \<Rightarrow> Inl (Raised KeyError k))
      | _ \<Rightarrow> Inl (Raised TypeError ''not subscriptable by str''))"

text \<open>\<^verbatim>\<open>obj.get(key, default)\<close>: only a dict has the method.\<close>

definition dict_get :: "pyval \<Rightarrow> string \<Rightarrow> pyval \<Rightarrow> exn + pyval" where
  "dict_get obj k dflt =
     (case obj of
        PDict kvs \<Rightarrow> Inr (case map_of kvs k of Some v \<Rightarrow> v | None \<Rightarrow> dflt)
      | _ \<Rightarrow> Inl (Raised AttributeError ''object has no attribute get''))"

text \<open>
  A statement inside a try block whose handler ends the block: when it raises, the rest
  of the block is abandoned and the exception is what the block yields.
\<close>

definition and_then :: "exn + 'a \<Rightarrow> ('a \<Rightarrow> exn + 'b) \<Rightarrow> exn + 'b" where
  "and_then r f = (case r of Inl e \<Rightarrow> Inl e | Inr x \<Rightarrow> f x)"

text \<open>\<^verbatim>\<open>len(x)\<close> and \<^verbatim>\<open>for y in x\<close> for the values that have them.\<close>

fun py_len :: "pyval \<Rightarrow> exn + nat" where
  "py_len (PStr s) = Inr (length s)"
| "py_len (PList xs) = Inr (length xs)"
| "py_len (PDict kvs) = Inr (length kvs)"
| "py_len v = Inl (Raised TypeError ''object has no len()'')"

fun py_iter :: "pyval \<Rightarrow> exn + pyval list" where
  "py_iter (PStr s) = Inr (map (\<lambda>c. PStr [c]) s)"
| "py_iter (PList xs) = Inr xs"
| "py_iter (PDict kvs) = Inr (map (\<lambda>kv. PStr (fst kv)) kvs)"
| "py_iter v = Inl (Raised TypeError ''object is not iterable'')"

text \<open>A value that a path function accepts has to be a string.\<close>

definition as_str :: "pyval \<Rightarrow> exn + string" where
  "as_str v = (case v of PStr s \<Rightarrow> Inr s | _ \<Rightarrow> Inl (Raised TypeError ''expected str''))"

subsection \<open>String methods\<close>

definition is_digit :: "char \<Rightarrow> bool" where
  "is_digit c = (c \<in> set ''0123456789'')"

definition digit_value :: "char \<Rightarrow> nat" where
  "digit_value c = of_char c - 48"

text \<open>\<^verbatim>\<open>int(s)\<close> on a run of decimal digits.\<close>

definition int_of_digits :: "string \<Rightarrow> int" where
  "int_of_digits ds = int (foldl (\<lambda>a c. 10 * a + digit_value c) 0 ds)"

definition lower_char :: "char \<Rightarrow> char" where
  "lower_char c =
     (case map_of (zip ''ABCDEFGHIJKLMNOPQRSTUVWXYZ'' ''abcdefghijklmnopqrstuvwxyz'') c of
        Some l \<Rightarrow> l | None \<Rightarrow> c)"

definition lower :: "string \<Rightarrow> string" where
  "lower s = map lower_char s"

definition is_space :: "char \<Rightarrow> bool" where
  "is_space c = (c \<in> set [CHR 0x09, CHR 0x0A, CHR 0x0B, CHR 0x0C, CHR 0x0D,
                           CHR 0x1C, CHR 0x1D, CHR 0x1E, CHR 0x1F, CHR '' ''])"

definition strip :: "string \<Rightarrow> string" where
  "strip s = rev (dropWhile is_space (rev (dropWhile is_space s)))"

definition lstrip_slash :: "string \<Rightarrow> string" where
  "lstrip_slash s = dropWhile (\<lambda>c. c = CHR ''/'') s"

definition startswith :: "string \<Rightarrow> string \<Rightarrow> bool" where
  "startswith s p = (take (length p) s = p)"

definition endswith :: "string \<Rightarrow> string \<Rightarrow> bool" where
  "endswith s p = (take (length p) (rev s) = rev p)"

text \<open>\<^verbatim>\<open>s.split(sep)\<close> for a one-character separator.\<close>

fun split_char :: "char \<Rightarrow> string \<Rightarrow> string list" where
  "split_char sep [] = [[]]"
| "split_char sep (c # cs) =
     (if c = sep then [] # split_char sep cs
      else (case split_char sep cs of
              p # ps \<Rightarrow> (c # p) # ps
            | [] \<Rightarrow> [[c]]))"

text \<open>\<^verbatim>\<open>s.replace(old, new)\<close>: every non-overlapping occurrence, left to right.\<close>

fun replace :: "string \<Rightarrow> string \<Rightarrow> string \<Rightarrow> string" where
  "replace old new [] = (if old = [] then new else [])"
| "replace old new (c # cs) =
     (if old = [] then new @ c # replace old new cs
      else if take (length old) (c # cs) = old
      then new @ replace old new (drop (length old) (c # cs))
      else c # replace old new cs)"

text \<open>\<^verbatim>\<open>os.path.basename\<close>: what follows the last slash.\<close>

definition basename :: "string \<Rightarrow> string" where
  "basename p = last (split_char CHR ''/'' p)"

subsection \<open>The two regular expressions\<close>

text \<open>
  \<^verbatim>\<open>re.search(r'(\d+)', s)\<close>: the leftmost digit, extended greedily; the result is
  group 1.
\<close>

definition re_search_digits :: "string \<Rightarrow> string option" where
  "re_search_digits s =
     (let r = dropWhile (\<lambda>c. \<not> is_digit c) s
      in if r = [] then None else Some (takeWhile is_digit r))"

text \<open>
  \<^verbatim>\<open>frame[_-]?(\d+)\<close> with \<^verbatim>\<open>re.IGNORECASE\<close>, tried at the start of \<open>s\<close>: the
  five letters, then either one separator followed by a digit or a digit at once.
\<close>

definition match_frame_at :: "string \<Rightarrow> string option" where
  "match_frame_at s =
     (if lower (take 5 s) = ''frame'' then
        (case drop 5 s of
           [] \<Rightarrow> None
         | c # r \<Rightarrow>
             if (c = CHR ''_'' \<or> c = CHR ''-'') \<and> r \<noteq> [] \<and> is_digit (hd r)
             then Some (takeWhile is_digit r)
             else if is_digit c then Some (takeWhile is_digit (c # r))
             else None)
      else None)"

text \<open>\<^verbatim>\<open>re.search\<close> of that pattern: the first position where it matches.\<close>

fun re_search_frame :: "string \<Rightarrow> string option" where
  "re_search_frame [] = None"
| "re_search_frame (c # cs) =
     (case match_frame_at (c # cs) of
        Some g \<Rightarrow> Some g
      | None \<Rightarrow> re_search_frame cs)"

section \<open>External collaborators\<close>

text \<open>
  Object storage, the table, the inference endpoint and the library calls whose code is
  not part of the repository are parameters: each may answer or raise. The table is its
  list of items; \<open>table_scan_error\<close> and the other \<open>_error\<close> fields say when a call
  fails.
\<close>

datatype s3_body = Bytes string | JsonText pyval

record services =
  unquote_plus :: "string \<Rightarrow> string"
  urlparse :: "pyval \<Rightarrow> exn + string \<times> string"
  json_loads :: "string \<Rightarrow> exn + pyval"
  json_dumps_error :: "pyval \<Rightarrow> exn option"
  py_str :: "pyval \<Rightarrow> string"
  int_of_str :: "string \<Rightarrow> exn + int"
  posix_path :: "string list \<Rightarrow> string"
  s3_get_object :: "pyval \<Rightarrow> string \<Rightarrow> exn + string"
  s3_put_object_error :: "pyval \<Rightarrow> string \<Rightarrow> s3_body \<Rightarrow> exn option"
  s3_generate_presigned_url :: "pyval \<Rightarrow> pyval \<Rightarrow> nat \<Rightarrow> exn + pyval"
  sm_invoke_endpoint :: "pyval \<Rightarrow> string \<Rightarrow> exn + string"
  table_put_item_error :: "pyval \<Rightarrow> exn option"
  table_items :: "pyval list"
  table_scan_error :: "exn option"
  utcnow_epoch :: int
  utcnow_iso :: string

text \<open>\<^verbatim>\<open>str(x)\<close>: a string is itself, anything else is printed by the interpreter.\<close>

definition str_of :: "'a services_scheme \<Rightarrow> pyval \<Rightarrow> string" where
  "str_of env v = (case v of PStr s \<Rightarrow> s | _ \<Rightarrow> py_str env v)"

section \<open>Outlier Detector (SafeSite-outlier-detector.py)\<close>

record detector_env = services +
  OUTLIER_CLASSES_STR :: string

text \<open>The set comprehension of lines 26 to 28.\<close>

definition OUTLIER_CLASSES :: "detector_env \<Rightarrow> string set" where
  "OUTLIER_CLASSES env =
     set (map (\<lambda>cls. lower (strip cls))
            (filter (\<lambda>cls. strip cls \<noteq> []) (split_char CHR '','' (OUTLIER_CLASSES_STR env))))"

fun floats_to_decimals :: "pyval \<Rightarrow> pyval" where
  "floats_to_decimals (PList xs) = PList (map floats_to_decimals xs)"
| "floats_to_decimals (PDict kvs) = PDict (map (\<lambda>(k, v). (k, floats_to_decimals v)) kvs)"
| "floats_to_decimals (PFloat x) = PDecimal x"
| "floats_to_decimals obj = obj"

definition detector_extract_frame_number :: "string \<Rightarrow> int option" where
  "detector_extract_frame_number frame_filename =
     (case re_search_frame frame_filename of
        Some g \<Rightarrow> Some (int_of_digits g)
      | None \<Rightarrow> None)"

text \<open>
  Whether the format specification \<^verbatim>\<open>.2f\<close> of line 168 accepts the value: numbers are
  printed (an int only if it converts to a double), a string raises ValueError and
  everything else TypeError.
\<close>

fun format_fixed :: "pyval \<Rightarrow> exn option" where
  "format_fixed (PInt i) =
     (if \<bar>i\<bar> < 2 ^ 1024 - 2 ^ 970 then None
      else Some (Raised OverflowError ''int too large to convert to float''))"
| "format_fixed (PBool b) = None"
| "format_fixed (PFloat x) = None"
| "format_fixed (PDecimal x) = None"
| "format_fixed (PStr s) = Some (Raised ValueError ''Unknown format code'')"
| "format_fixed v = Some (Raised TypeError ''unsupported format string'')"

text \<open>The loop of lines 139 to 168 over the predictions, with its accumulator.\<close>

fun find_outliers :: "detector_env \<Rightarrow> pyval list \<Rightarrow> pyval list \<Rightarrow> exn + pyval list" where
  "find_outliers env detected_outliers [] = Inr detected_outliers"
| "find_outliers env detected_outliers (prediction # rest) =
     (case dict_get prediction ''label'' PNone of
        Inl e \<Rightarrow> Inl e
      | Inr class_label \<Rightarrow>
          if \<not> truthy class_label then find_outliers env detected_outliers rest
          else if lower (str_of env class_label) \<in> OUTLIER_CLASSES env then
            (case dict_get prediction ''confidence'' (PFloat (Finite 0)) of
               Inl e \<Rightarrow> Inl e
             | Inr confidence \<Rightarrow>
                 (case dict_get prediction ''bbox'' (PList []) of
                    Inl e \<Rightarrow> Inl e
                  | Inr box \<Rightarrow>
                      (case format_fixed confidence of
                         Some e \<Rightarrow> Inl e
                       | None \<Rightarrow>
                           find_outliers env
                             (detected_outliers @
                                [PDict [(''class'', class_label),
                                        (''confidence'', confidence),
                                        (''box'', box)]])
                             rest)))
          else find_outliers env detected_outliers rest)"

text \<open>What lines 79 to 134 establish about a record before the detections are looked at.\<close>

record loaded =
  bucket_name_of :: pyval
  object_key_of :: string
  inference_data_of :: pyval
  predictions_of :: "pyval list"
  video_name_of :: pyval
  frame_filename_of :: string
  frame_number_of :: pyval

datatype 'a outcome = Skipped | Errored | Done 'a

text \<open>
  A statement inside the try block of line 78: when it raises, one of the handlers of
  lines 301 to 314 counts the record as an error; otherwise the block goes on.
\<close>

definition attempt :: "exn + 'a \<Rightarrow> ('a \<Rightarrow> 'b outcome) \<Rightarrow> 'b outcome" where
  "attempt r f = (case r of Inl e \<Rightarrow> Errored | Inr x \<Rightarrow> f x)"

text \<open>\<^verbatim>\<open>unquote_plus\<close> of the key of the notification, which has to be a string.\<close>

definition decode_key :: "detector_env \<Rightarrow> pyval \<Rightarrow> exn + string" where
  "decode_key env raw_key =
     (case raw_key of
        PStr k \<Rightarrow> Inr (unquote_plus env k)
      | _ \<Rightarrow> Inl (Raised TypeError ''expected str''))"

definition load_record :: "detector_env \<Rightarrow> pyval \<Rightarrow> loaded outcome" where
  "load_record env record =
     attempt (subscript record ''s3'') (\<lambda>s3.
     attempt (subscript s3 ''bucket'') (\<lambda>bucket.
     attempt (subscript bucket ''name'') (\<lambda>bucket_name.
     attempt (subscript s3 ''object'') (\<lambda>obj.
     attempt (subscript obj ''key'') (\<lambda>raw_key.
     attempt (decode_key env raw_key) (\<lambda>object_key.
       if \<not> startswith object_key ''inference-results/'' then Skipped
       else if \<not> endswith object_key ''.json'' then Skipped
       else
         attempt (s3_get_object env bucket_name object_key) (\<lambda>body.
         attempt (json_loads env body) (\<lambda>inference_data.
         attempt (dict_get inference_data ''detections'' (PList [])) (\<lambda>dets.
           (let predictions = (case dets of PList xs \<Rightarrow> xs | _ \<Rightarrow> []);
                path_parts = split_char CHR ''/'' object_key
            in if length path_parts < 3 then Errored
               else
                 attempt (dict_get inference_data ''video_id''
                            (PStr (path_parts ! (length path_parts - 2)))) (\<lambda>video_name.
                   (let frame_filename = last path_parts in
                    attempt (dict_get inference_data ''frame_number''
                               (case detector_extract_frame_number frame_filename of
                                  Some n \<Rightarrow> PInt n
                                | None \<Rightarrow> PNone)) (\<lambda>frame_number.
                      if frame_number = PNone then Errored
                      else Done \<lparr> bucket_name_of = bucket_name,
                                  object_key_of = object_key,
                                  inference_data_of = inference_data,
                                  predictions_of = predictions,
                                  video_name_of = video_name,
                                  frame_filename_of = frame_filename,
                                  frame_number_of = frame_number \<rparr>)))))))))))))"

text \<open>
  Lines 179 to 202: the image key and the image URL of an event. The link is asked for
  86400 seconds; when the request raises, the URL is the error text.
\<close>

definition resolve_image_url :: "detector_env \<Rightarrow> loaded \<Rightarrow> exn + pyval \<times> pyval" where
  "resolve_image_url env c =
     (case dict_get (inference_data_of c) ''processed_frame_url'' PNone of
        Inl e \<Rightarrow> Inl e
      | Inr presigned_image_url \<Rightarrow>
          if \<not> truthy presigned_image_url
             \<or> presigned_image_url = PStr ''N/A (Processed by SageMaker)''
          then
            (let frame_image_key =
                   replace ''.json'' ''.jpg''
                     (replace ''inference-results/'' ''extracted-frames/'' (object_key_of c))
             in (case s3_generate_presigned_url env (bucket_name_of c)
                        (PStr frame_image_key) 86400 of
                   Inr url \<Rightarrow> Inr (PStr frame_image_key, url)
                 | Inl e \<Rightarrow>
                     Inr (PStr frame_image_key,
                          PStr (''Error generating URL: '' @ message e))))
          else
            (case urlparse env presigned_image_url of
               Inr (netloc, path) \<Rightarrow>
                 Inr (PStr (unquote_plus env (lstrip_slash path)), presigned_image_url)
             | Inl e \<Rightarrow>
                 Inr (PStr ''Unknown (from processed_frame_url)'', presigned_image_url)))"

text \<open>The item of lines 207 to 220.\<close>

definition item_to_save ::
  "detector_env \<Rightarrow> loaded \<Rightarrow> pyval list \<Rightarrow> pyval \<times> pyval \<Rightarrow> pyval" where
  "item_to_save env c detected_outliers key_and_url =
     (let event_id =
            str_of env (video_name_of c) @ ''_'' @ replace ''.json'' [] (frame_filename_of c);
          frame_image_key = fst key_and_url;
          presigned_image_url = snd key_and_url
      in PDict [(''video_frame_timestamp'', PStr event_id),
                (''timestamp'', PInt (utcnow_epoch env)),
                (''videoName'', video_name_of c),
                (''frameNumber'', frame_number_of c),
                (''s3Bucket'', bucket_name_of c),
                (''s3Key'', PStr (object_key_of c)),
                (''s3ImageKey'', frame_image_key),
                (''presignedImageUrl'', presigned_image_url),
                (''outliers'', PList detected_outliers),
                (''totalDetections'', PInt (int (length (predictions_of c)))),
                (''outlierCount'', PInt (int (length detected_outliers))),
                (''timestampISO'', PStr (utcnow_iso env @ ''Z''))])"

text \<open>Lines 171 to 227: the event of a record whose list of outliers is not empty.\<close>

definition save_event :: "detector_env \<Rightarrow> loaded \<Rightarrow> pyval list \<Rightarrow> pyval option outcome" where
  "save_event env c detected_outliers =
     attempt (resolve_image_url env c) (\<lambda>key_and_url.
       (let item_with_decimals =
              floats_to_decimals (item_to_save env c detected_outliers key_and_url)
        in (case table_put_item_error env item_with_decimals of
              Some e \<Rightarrow> Errored
            | None \<Rightarrow> Done (Some item_with_decimals))))"

text \<open>
  One pass of the loop of line 75. The result says whether the record was skipped,
  counted as an error, or processed, and in the last case which item was put into the
  table, if any. The notification of lines 230 to 293 sits in its own try block and
  changes neither the counters nor the table; it is left out.
\<close>

definition process_record :: "detector_env \<Rightarrow> pyval \<Rightarrow> pyval option outcome" where
  "process_record env record =
     (case load_record env record of
        Skipped \<Rightarrow> Skipped
      | Errored \<Rightarrow> Errored
      | Done c \<Rightarrow>
          attempt (find_outliers env [] (predictions_of c)) (\<lambda>detected_outliers.
            if detected_outliers \<noteq> [] then save_event env c detected_outliers
            else Done None))"

record detector_state =
  processed_count :: nat
  outlier_count :: nat
  error_count :: nat
  table_writes :: "pyval list"

definition detector_step :: "detector_env \<Rightarrow> detector_state \<Rightarrow> pyval \<Rightarrow> detector_state" where
  "detector_step env st record =
     (case process_record env record of
        Skipped \<Rightarrow> st
      | Errored \<Rightarrow> st \<lparr> error_count := error_count st + 1 \<rparr>
      | Done None \<Rightarrow> st \<lparr> processed_count := processed_count st + 1 \<rparr>
      | Done (Some item) \<Rightarrow>
          st \<lparr> processed_count := processed_count st + 1,
               outlier_count := outlier_count st + 1,
               table_writes := table_writes st @ [item] \<rparr>)"


section \<open>Inference Caller (SafeSite-Inference-Caller.py)\<close>

text \<open>
  Lines 22 to 35. A string is searched for its first digits; with any other value the
  search raises, and the handler of line 33 answers 0.
\<close>

definition caller_extract_frame_number :: "pyval \<Rightarrow> int" where
  "caller_extract_frame_number frame_file =
     (case frame_file of
        PStr s \<Rightarrow> (case re_search_digits s of Some g \<Rightarrow> int_of_digits g | None \<Rightarrow> 0)
      | _ \<Rightarrow> 0)"

subsection \<open>Drawing the detections\<close>

text \<open>
  The imaging library, on an image type of its own. \<open>Image_open\<close> stands for lines 43
  to 45, \<open>text_box\<close> for the box of the label text at the corner of the detection box
  (lines 74 to 80, by whichever method the library has), \<open>label_text\<close> for the formatted
  text of line 71. Every call may raise.
\<close>

record 'img pil =
  Image_open :: "string \<Rightarrow> exn + 'img"
  rectangle_outline :: "'img \<Rightarrow> pyval \<Rightarrow> string \<Rightarrow> exn + 'img"
  label_text :: "pyval \<Rightarrow> pyval \<Rightarrow> exn + string"
  text_box :: "'img \<Rightarrow> pyval \<Rightarrow> string \<Rightarrow> exn + rat \<times> rat \<times> rat \<times> rat"
  rectangle_fill :: "'img \<Rightarrow> rat \<times> rat \<times> rat \<times> rat \<Rightarrow> string \<Rightarrow> exn + 'img"
  draw_text :: "'img \<Rightarrow> pyval \<Rightarrow> rat \<Rightarrow> string \<Rightarrow> exn + 'img"
  save_jpeg :: "'img \<Rightarrow> exn + string"

text \<open>\<^verbatim>\<open>needle in s\<close> for two strings.\<close>

fun is_substring :: "string \<Rightarrow> string \<Rightarrow> bool" where
  "is_substring needle [] = (needle = [])"
| "is_substring needle (c # cs) =
     (take (length needle) (c # cs) = needle \<or> is_substring needle cs)"

text \<open>\<^verbatim>\<open>needle in label\<close> for whatever the label is.\<close>

fun py_contains :: "string \<Rightarrow> pyval \<Rightarrow> exn + bool" where
  "py_contains needle (PStr s) = Inr (is_substring needle s)"
| "py_contains needle (PList xs) = Inr (PStr needle \<in> set xs)"
| "py_contains needle (PDict kvs) = Inr (map_of kvs needle \<noteq> None)"
| "py_contains needle v = Inl (Raised TypeError ''argument is not iterable'')"

text \<open>Lines 60 to 65.\<close>

definition box_color :: "pyval \<Rightarrow> exn + string" where
  "box_color label =
     and_then (py_contains ''helmet'' label) (\<lambda>helmet.
       if helmet then Inr ''yellow''
       else and_then (py_contains ''suit'' label) (\<lambda>suit.
              if suit then Inr ''orange'' else Inr ''red''))"

text \<open>Line 56: \<^verbatim>\<open>not box or len(box) != 4\<close>.\<close>

definition box_invalid :: "pyval \<Rightarrow> exn + bool" where
  "box_invalid box =
     (if \<not> truthy box then Inr True
      else and_then (py_len box) (\<lambda>n. Inr (n \<noteq> 4)))"

text \<open>Lines 60 to 88 for one detection with a box of four.\<close>

definition draw_detection :: "'img pil \<Rightarrow> 'img \<Rightarrow> pyval \<Rightarrow> pyval \<Rightarrow> pyval \<Rightarrow> exn + 'img" where
  "draw_detection lib im box label confidence =
     and_then (box_color label) (\<lambda>color.
     and_then (rectangle_outline lib im box color) (\<lambda>im1.
     and_then (label_text lib label confidence) (\<lambda>text.
     and_then (text_box lib im1 box text) (\<lambda>(x0, y0, x1, y1).
       (let top = max 0 (y0 - 2) in
        and_then (rectangle_fill lib im1 (x0, top, x1 + 4, y1 + 2) color) (\<lambda>im2.
        draw_text lib im2 box top text))))))"

text \<open>The loop of lines 47 to 88.\<close>

fun draw_detections :: "'img pil \<Rightarrow> 'img \<Rightarrow> pyval list \<Rightarrow> exn + 'img" where
  "draw_detections lib im [] = Inr im"
| "draw_detections lib im (det # rest) =
     and_then (dict_get det ''bbox'' PNone) (\<lambda>box.
     and_then (dict_get det ''label'' (PStr ''unknown'')) (\<lambda>label.
     and_then (dict_get det ''confidence'' (PInt 0)) (\<lambda>confidence.
     and_then (box_invalid box) (\<lambda>invalid.
       if invalid then draw_detections lib im rest
       else and_then (draw_detection lib im box label confidence)
              (\<lambda>im'. draw_detections lib im' rest)))))"

text \<open>The try block of lines 42 to 92, and the function with its handler.\<close>

definition draw_boxes_body :: "'img pil \<Rightarrow> string \<Rightarrow> pyval \<Rightarrow> exn + string" where
  "draw_boxes_body lib image_bytes detections =
     and_then (Image_open lib image_bytes) (\<lambda>im.
     and_then (py_iter detections) (\<lambda>dets.
     and_then (draw_detections lib im dets) (\<lambda>drawn.
     save_jpeg lib drawn)))"

definition draw_boxes :: "'img pil \<Rightarrow> string \<Rightarrow> pyval \<Rightarrow> string" where
  "draw_boxes lib image_bytes detections =
     (case draw_boxes_body lib image_bytes detections of
        Inr out \<Rightarrow> out
      | Inl e \<Rightarrow> image_bytes)"

subsection \<open>The handler\<close>

record caller_env = services +
  ENDPOINT_NAME :: "string option"
  OUTPUT_BUCKET :: "string option"
  ANNOTATED_BUCKET :: "string option"
  OUTPUT_PREFIX :: string
  ANNOTATED_PREFIX :: string

definition strip_slash :: "string \<Rightarrow> string" where
  "strip_slash s = rev (lstrip_slash (rev (lstrip_slash s)))"

text \<open>An environment value as the client receives it.\<close>

definition env_value :: "string option \<Rightarrow> pyval" where
  "env_value v = (case v of Some s \<Rightarrow> PStr s | None \<Rightarrow> PNone)"

text \<open>The decimal digits of a number, and the format \<^verbatim>\<open>05d\<close>.\<close>

fun string_of_nat :: "nat \<Rightarrow> string" where
  "string_of_nat n =
     (if n < 10 then [''0123456789'' ! n]
      else string_of_nat (n div 10) @ [''0123456789'' ! (n mod 10)])"

definition format_05d :: "int \<Rightarrow> string" where
  "format_05d i =
     (let ds = string_of_nat (nat \<bar>i\<bar>);
          padded = replicate (5 - length ds - (if i < 0 then 1 else 0)) CHR ''0'' @ ds
      in if i < 0 then CHR ''-'' # padded else padded)"

datatype s3_put = Put pyval string s3_body string

text \<open>Lines 115 to 152: what is done before anything is written.\<close>

record prepared =
  frame_file_of :: string
  original_video_name_of :: string
  detections_of :: pyval
  annotated_image_bytes_of :: string

definition prepare_message :: "'img pil \<Rightarrow> caller_env \<Rightarrow> pyval \<Rightarrow> exn + prepared" where
  "prepare_message lib env rcd =
     and_then (subscript rcd ''body'') (\<lambda>body_text.
     and_then (as_str body_text) (\<lambda>text.
     and_then (json_loads env text) (\<lambda>message_body.
     and_then (subscript message_body ''s3_uri'') (\<lambda>frame_s3_path.
     and_then (dict_get message_body ''original_video_key'' (PStr ''unknown-video''))
       (\<lambda>original_video_key.
     and_then (dict_get message_body ''frame_file'' (PStr ''unknown-frame.jpg'')) (\<lambda>frame_file.
     and_then (as_str original_video_key) (\<lambda>video_key.
     and_then (urlparse env frame_s3_path) (\<lambda>(bucket, path).
       (let key = unquote_plus env (lstrip_slash path) in
        if bucket = [] \<or> key = []
        then Inl (Raised ValueError (''Invalid S3 URI: '' @ str_of env frame_s3_path))
        else
          and_then (s3_get_object env (PStr bucket) key) (\<lambda>image_bytes.
          and_then (sm_invoke_endpoint env (env_value (ENDPOINT_NAME env)) image_bytes)
            (\<lambda>result_body.
          and_then (json_loads env result_body) (\<lambda>detection_results.
          and_then (dict_get detection_results ''detections'' (PList [])) (\<lambda>detections.
          and_then (py_len detections) (\<lambda>num_detections.
          and_then (as_str frame_file) (\<lambda>file_name.
            Inr \<lparr> frame_file_of = file_name,
                  original_video_name_of = basename video_key,
                  detections_of = detections,
                  annotated_image_bytes_of = draw_boxes lib image_bytes detections \<rparr>
          )))))))))))))))"

text \<open>Lines 154 to 168 and 184 to 196: the two objects and their keys.\<close>

definition annotated_put :: "caller_env \<Rightarrow> prepared \<Rightarrow> s3_put" where
  "annotated_put env p =
     (let clean_annotated_prefix = strip_slash (ANNOTATED_PREFIX env);
          annotated_key_parts =
            (if clean_annotated_prefix \<noteq> []
             then [clean_annotated_prefix, original_video_name_of p, frame_file_of p]
             else [original_video_name_of p, frame_file_of p])
      in Put (env_value (ANNOTATED_BUCKET env)) (posix_path env annotated_key_parts)
           (Bytes (annotated_image_bytes_of p)) ''image/jpeg'')"

definition annotated_s3_uri :: "caller_env \<Rightarrow> prepared \<Rightarrow> string" where
  "annotated_s3_uri env p =
     (case annotated_put env p of
        Put bucket key b t \<Rightarrow> ''s3://'' @ str_of env bucket @ ''/'' @ key)"

definition full_response_payload :: "caller_env \<Rightarrow> prepared \<Rightarrow> pyval" where
  "full_response_payload env p =
     (let frame_number = caller_extract_frame_number (PStr (frame_file_of p))
      in PDict [(''frame_id'',
                 PStr (original_video_name_of p @ ''_frame_'' @ format_05d frame_number)),
                (''video_id'', PStr (original_video_name_of p)),
                (''frame_number'', PInt frame_number),
                (''detections'', detections_of p),
                (''processed_frame_url'', PStr ''N/A (Processed by SageMaker)''),
                (''annotated_frame_s3_uri'', PStr (annotated_s3_uri env p)),
                (''outlier_detected'', PBool False),
                (''outlier_reason'', PNone)])"

definition result_put :: "caller_env \<Rightarrow> prepared \<Rightarrow> s3_put" where
  "result_put env p =
     (let frame_json = replace ''.png'' ''.json'' (replace ''.jpg'' ''.json'' (frame_file_of p));
          clean_output_prefix = strip_slash (OUTPUT_PREFIX env);
          path_parts =
            (if clean_output_prefix \<noteq> []
             then [clean_output_prefix, original_video_name_of p, frame_json]
             else [original_video_name_of p, frame_json])
      in Put (env_value (OUTPUT_BUCKET env)) (posix_path env path_parts)
           (JsonText (full_response_payload env p)) ''application/json'')"

definition put_error :: "caller_env \<Rightarrow> s3_put \<Rightarrow> exn option" where
  "put_error env w = (case w of Put bucket key b t \<Rightarrow> s3_put_object_error env bucket key b)"

text \<open>
  The try block of lines 114 to 199 for one record: the objects written, and the
  exception that ended the block, if any.
\<close>

definition process_message ::
  "'img pil \<Rightarrow> caller_env \<Rightarrow> pyval \<Rightarrow> s3_put list \<times> exn option" where
  "process_message lib env rcd =
     (case prepare_message lib env rcd of
        Inl e \<Rightarrow> ([], Some e)
      | Inr p \<Rightarrow>
          (case put_error env (annotated_put env p) of
             Some e \<Rightarrow> ([], Some e)
           | None \<Rightarrow>
               (case put_error env (result_put env p) of
                  Some e \<Rightarrow> ([annotated_put env p], Some e)
                | None \<Rightarrow> ([annotated_put env p, result_put env p], None))))"

record caller_state =
  failed_messages :: "pyval list"
  caller_processed_count :: nat
  objects_written :: "s3_put list"

text \<open>
  The loop of line 110. The handler of line 201 reads the identifier of the record; when
  the record has none, that raises out of the function.
\<close>

fun caller_loop ::
  "'img pil \<Rightarrow> caller_env \<Rightarrow> caller_state \<Rightarrow> pyval list \<Rightarrow> exn + caller_state" where
  "caller_loop lib env st [] = Inr st"
| "caller_loop lib env st (rcd # rest) =
     (case process_message lib env rcd of
        (written, None) \<Rightarrow>
          caller_loop lib env
            (st \<lparr> caller_processed_count := caller_processed_count st + 1,
                  objects_written := objects_written st @ written \<rparr>) rest
      | (written, Some e) \<Rightarrow>
          and_then (subscript rcd ''messageId'') (\<lambda>message_id.
            caller_loop lib env
              (st \<lparr> failed_messages :=
                      failed_messages st @ [PDict [(''itemIdentifier'', message_id)]],
                    objects_written := objects_written st @ written \<rparr>) rest))"

datatype caller_response = BatchItemFailures "pyval list" | AllProcessed nat

definition caller_lambda_handler ::
  "'img pil \<Rightarrow> caller_env \<Rightarrow> pyval \<Rightarrow> exn + caller_response \<times> s3_put list" where
  "caller_lambda_handler lib env event =
     (if \<not> truthy (env_value (ENDPOINT_NAME env)) \<or> \<not> truthy (env_value (OUTPUT_BUCKET env))
      then Inl (Raised ValueError
                  ''Missing env vars: SAGEMAKER_ENDPOINT_NAME and/or OUTPUT_BUCKET'')
      else
        and_then (subscript event ''Records'') (\<lambda>records.
        and_then (py_len records) (\<lambda>n.
        and_then (py_iter records) (\<lambda>rcds.
        and_then (caller_loop lib env
                    \<lparr> failed_messages = [], caller_processed_count = 0,
                      objects_written = [] \<rparr> rcds) (\<lambda>st.
          if failed_messages st \<noteq> []
          then Inr (BatchItemFailures (failed_messages st), objects_written st)
          else Inr (AllProcessed (caller_processed_count st), objects_written st))))))"


section \<open>Outlier Fetcher (SafeSite-fetch-outlier.py)\<close>

subsection \<open>The table service\<close>

text \<open>
  The filter expressions that the handler builds with \<^verbatim>\<open>Attr(...).eq\<close>,
  \<^verbatim>\<open>.gte\<close>, \<^verbatim>\<open>.lte\<close> and \<^verbatim>\<open>&\<close>, and what they mean to the table: equality of
  the attribute with the value, and comparison of a number attribute with the bound.
\<close>

datatype condition =
    Attr_eq string pyval
  | Attr_gte string int
  | Attr_lte string int
  | And condition condition

fun number_of :: "pyval \<Rightarrow> rat option" where
  "number_of (PInt i) = Some (of_int i)"
| "number_of (PDecimal (Finite r)) = Some r"
| "number_of v = None"

fun cond_holds :: "condition \<Rightarrow> pyval \<Rightarrow> bool" where
  "cond_holds (Attr_eq a v) item = (subscript item a = Inr v)"
| "cond_holds (Attr_gte a n) item =
     (case subscript item a of
        Inr x \<Rightarrow> (case number_of x of Some r \<Rightarrow> of_int n \<le> r | None \<Rightarrow> False)
      | Inl e \<Rightarrow> False)"
| "cond_holds (Attr_lte a n) item =
     (case subscript item a of
        Inr x \<Rightarrow> (case number_of x of Some r \<Rightarrow> r \<le> of_int n | None \<Rightarrow> False)
      | Inl e \<Rightarrow> False)"
| "cond_holds (And c d) item = (cond_holds c item \<and> cond_holds d item)"

text \<open>
  \<^verbatim>\<open>table.scan(Limit=..., FilterExpression=...)\<close> followed by
  \<^verbatim>\<open>response.get('Items', [])\<close>. The service looks at no more than \<open>Limit\<close> items
  of the table and returns those of them that pass the filter; it refuses a limit below
  1, and it may fail as a whole.
\<close>

definition table_scan ::
  "'a services_scheme \<Rightarrow> int \<Rightarrow> condition option \<Rightarrow> exn + pyval list" where
  "table_scan env limit filter_expression =
     (case table_scan_error env of
        Some e \<Rightarrow> Inl e
      | None \<Rightarrow>
          if limit < 1 then Inl (Raised ServiceError ''Limit must be at least 1'')
          else Inr (filter (\<lambda>item. case filter_expression of
                                     None \<Rightarrow> True
                                   | Some c \<Rightarrow> cond_holds c item)
                      (take (nat limit) (table_items env))))"

subsection \<open>The handler and its helpers\<close>

text \<open>\<^verbatim>\<open>int(x)\<close>: a string is parsed, a number is truncated towards zero.\<close>

definition truncate :: "rat \<Rightarrow> int" where
  "truncate r = (if 0 \<le> r then \<lfloor>r\<rfloor> else \<lceil>r\<rceil>)"

fun py_int :: "'a services_scheme \<Rightarrow> pyval \<Rightarrow> exn + int" where
  "py_int env (PInt i) = Inr i"
| "py_int env (PBool b) = Inr (if b then 1 else 0)"
| "py_int env (PStr s) = int_of_str env s"
| "py_int env (PFloat (Finite r)) = Inr (truncate r)"
| "py_int env (PDecimal (Finite r)) = Inr (truncate r)"
| "py_int env (PFloat x) = Inl (Raised OverflowError ''cannot convert to integer'')"
| "py_int env (PDecimal x) = Inl (Raised OverflowError ''cannot convert to integer'')"
| "py_int env v = Inl (Raised TypeError ''int() argument must be a string or a number'')"

text \<open>Lines 21 to 32.\<close>

definition parse_s3_uri :: "'a services_scheme \<Rightarrow> pyval \<Rightarrow> pyval \<times> pyval" where
  "parse_s3_uri env s3_uri =
     (case urlparse env s3_uri of
        Inl e \<Rightarrow> (PNone, PNone)
      | Inr (bucket, path) \<Rightarrow>
          (let key = unquote_plus env (lstrip_slash path)
           in if bucket = [] \<or> key = [] then (PNone, PNone)
              else (PStr bucket, PStr key)))"

text \<open>Lines 34 to 45.\<close>

definition regenerate_presigned_url ::
  "'a services_scheme \<Rightarrow> pyval \<Rightarrow> pyval \<Rightarrow> nat \<Rightarrow> pyval" where
  "regenerate_presigned_url env bucket image_key expiration =
     (case s3_generate_presigned_url env bucket image_key expiration of
        Inr url \<Rightarrow> url
      | Inl e \<Rightarrow> PNone)"

text \<open>The body of the loop of line 95 on one item; the default expiration is 3600.\<close>

definition annotated_link :: "'a services_scheme \<Rightarrow> (string \<times> pyval) list \<Rightarrow> (string \<times> pyval) list" where
  "annotated_link env item =
     (let annotated_s3_uri = (case map_of item ''annotated_frame_s3_uri'' of
                                Some v \<Rightarrow> v | None \<Rightarrow> PNone)
      in if truthy annotated_s3_uri then
           (let parsed = parse_s3_uri env annotated_s3_uri;
                annotated_bucket = fst parsed;
                annotated_key = snd parsed
            in if truthy annotated_bucket \<and> truthy annotated_key then
                 (let new_annotated_url =
                        regenerate_presigned_url env annotated_bucket annotated_key 3600
                  in if truthy new_annotated_url
                     then AList.update ''presignedAnnotatedImageUrl'' new_annotated_url item
                     else item)
               else item)
         else item)"

definition original_link :: "'a services_scheme \<Rightarrow> (string \<times> pyval) list \<Rightarrow> (string \<times> pyval) list" where
  "original_link env item =
     (let s3_bucket = (case map_of item ''s3Bucket'' of Some v \<Rightarrow> v | None \<Rightarrow> PNone);
          s3_image_key = (case map_of item ''s3ImageKey'' of Some v \<Rightarrow> v | None \<Rightarrow> PNone)
      in if truthy s3_bucket \<and> truthy s3_image_key then
           (let new_url = regenerate_presigned_url env s3_bucket s3_image_key 3600
            in if truthy new_url then AList.update ''presignedImageUrl'' new_url item
               else item)
         else item)"

definition refresh_links :: "'a services_scheme \<Rightarrow> pyval \<Rightarrow> exn + pyval" where
  "refresh_links env item =
     (case item of
        PDict kvs \<Rightarrow> Inr (PDict (original_link env (annotated_link env kvs)))
      | _ \<Rightarrow> Inl (Raised AttributeError ''object has no attribute get''))"

fun refresh_all :: "'a services_scheme \<Rightarrow> pyval list \<Rightarrow> exn + pyval list" where
  "refresh_all env [] = Inr []"
| "refresh_all env (item # items) =
     and_then (refresh_links env item) (\<lambda>item'.
     and_then (refresh_all env items) (\<lambda>items'. Inr (item' # items')))"

text \<open>
  Line 118. The key of an item is its timestamp, or 0. Numbers are ordered by value and
  strings by their characters; any other mixture of keys cannot be compared, which the
  sort finds out as soon as there are two items. With the reverse flag the list is
  reversed, sorted stably in ascending order and reversed again.
\<close>

definition timestamp_key :: "pyval \<Rightarrow> pyval" where
  "timestamp_key x =
     (case x of
        PDict kvs \<Rightarrow> (case map_of kvs ''timestamp'' of Some v \<Rightarrow> v | None \<Rightarrow> PInt 0)
      | _ \<Rightarrow> PNone)"

fun key_number :: "pyval \<Rightarrow> rat option" where
  "key_number (PInt i) = Some (of_int i)"
| "key_number (PBool b) = Some (if b then 1 else 0)"
| "key_number (PDecimal (Finite r)) = Some r"
| "key_number (PFloat (Finite r)) = Some r"
| "key_number v = None"

definition number_key :: "pyval \<Rightarrow> rat" where
  "number_key x = (case key_number (timestamp_key x) of Some r \<Rightarrow> r | None \<Rightarrow> 0)"

definition string_key :: "pyval \<Rightarrow> string" where
  "string_key x = (case timestamp_key x of PStr s \<Rightarrow> s | _ \<Rightarrow> [])"

definition is_string :: "pyval \<Rightarrow> bool" where
  "is_string v = (case v of PStr s \<Rightarrow> True | _ \<Rightarrow> False)"

definition sort_newest_first :: "pyval list \<Rightarrow> exn + pyval list" where
  "sort_newest_first items =
     (if length items \<le> 1 then Inr items
      else if \<forall>x\<in>set items. key_number (timestamp_key x) \<noteq> None
      then Inr (rev (sort_key number_key (rev items)))
      else if \<forall>x\<in>set items. is_string (timestamp_key x)
      then Inr (rev (sort_key string_key (rev items)))
      else Inl (Raised TypeError ''not supported between instances''))"

text \<open>Lines 73 to 88: the filter built from the three parameters.\<close>

definition add_filter :: "condition option \<Rightarrow> condition \<Rightarrow> condition option" where
  "add_filter filter_expression c =
     (case filter_expression of None \<Rightarrow> Some c | Some f \<Rightarrow> Some (And f c))"

definition build_filter ::
  "'a services_scheme \<Rightarrow> pyval \<Rightarrow> pyval \<Rightarrow> pyval \<Rightarrow> exn + condition option" where
  "build_filter env video_name start_date end_date =
     (let f0 = (if truthy video_name then Some (Attr_eq ''videoName'' video_name) else None)
      in and_then (if truthy start_date
                   then and_then (py_int env start_date)
                          (\<lambda>s. Inr (add_filter f0 (Attr_gte ''timestamp'' s)))
                   else Inr f0) (\<lambda>f1.
         if truthy end_date
         then and_then (py_int env end_date)
                (\<lambda>e. Inr (add_filter f1 (Attr_lte ''timestamp'' e)))
         else Inr f1))"

text \<open>
  The try block of lines 64 to 128. Its value is the sorted list of items, once the
  response body has been serialised; \<open>json_dumps_error\<close> says when that fails.
\<close>

definition success_body :: "pyval list \<Rightarrow> pyval" where
  "success_body items =
     PDict [(''success'', PBool True),
            (''count'', PInt (int (length items))),
            (''events'', PList items)]"

definition fetch_events :: "'a services_scheme \<Rightarrow> pyval \<Rightarrow> exn + pyval list" where
  "fetch_events env event =
     and_then (dict_get event ''queryStringParameters'' PNone) (\<lambda>q.
       (let params = (if truthy q then q else PDict []) in
        and_then (dict_get params ''limit'' (PInt 50)) (\<lambda>limit_value.
        and_then (py_int env limit_value) (\<lambda>limit.
        and_then (dict_get params ''videoName'' PNone) (\<lambda>video_name.
        and_then (dict_get params ''startDate'' PNone) (\<lambda>start_date.
        and_then (dict_get params ''endDate'' PNone) (\<lambda>end_date.
        and_then (build_filter env video_name start_date end_date) (\<lambda>filter_expression.
        and_then (table_scan env limit filter_expression) (\<lambda>scanned.
        and_then (refresh_all env scanned) (\<lambda>refreshed.
        and_then (sort_newest_first refreshed) (\<lambda>items.
          (case json_dumps_error env (success_body items) of
             Some e \<Rightarrow> Inl e
           | None \<Rightarrow> Inr items))))))))))))"

datatype http_body = Text string | Dumped pyval

record response =
  statusCode :: int
  headers :: "(string \<times> string) list"
  response_body :: http_body

definition cors_headers :: "(string \<times> string) list" where
  "cors_headers =
     [(''Content-Type'', ''application/json''),
      (''Access-Control-Allow-Origin'', ''*''),
      (''Access-Control-Allow-Headers'',
       ''Content-Type,X-Amz-Date,Authorization,X-Api-Key,X-Amz-Security-Token''),
      (''Access-Control-Allow-Methods'', ''GET,OPTIONS'')]"

text \<open>
  Lines 48 to 142. The only statement outside the try block is the test of the method;
  it raises when the event is not a mapping.
\<close>

definition fetcher_lambda_handler :: "'a services_scheme \<Rightarrow> pyval \<Rightarrow> exn + response" where
  "fetcher_lambda_handler env event =
     and_then (dict_get event ''httpMethod'' PNone) (\<lambda>http_method.
       if http_method = PStr ''OPTIONS''
       then Inr \<lparr> statusCode = 200, headers = cors_headers, response_body = Text [] \<rparr>
       else
         (case fetch_events env event of
            Inr items \<Rightarrow>
              Inr \<lparr> statusCode = 200, headers = cors_headers,
                    response_body = Dumped (success_body items) \<rparr>
          | Inl e \<Rightarrow>
              Inr \<lparr> statusCode = 500, headers = cors_headers,
                    response_body = Dumped (PDict [(''success'', PBool False),
                                          (''error'', PStr (message e))]) \<rparr>))"

section \<open>Notions used to state the properties\<close>

text \<open>
  \<open>frame_token_at s run\<close>: \<open>s\<close> begins with the word frame in any letter case, then at
  most one of the separators, then the digits \<open>run\<close>, and no digit follows them.
\<close>

definition frame_token_at :: "string \<Rightarrow> string \<Rightarrow> bool" where
  "frame_token_at s run \<longleftrightarrow>
     (\<exists>f sep post. s = f @ sep @ run @ post \<and> lower f = ''frame'' \<and>
        (sep = [] \<or> sep = ''_'' \<or> sep = ''-'') \<and> run \<noteq> [] \<and>
        (\<forall>c\<in>set run. is_digit c) \<and> (post = [] \<or> \<not> is_digit (hd post)))"

text \<open>A storage notification for one object, as the Detector reads it.\<close>

definition s3_record :: "pyval \<Rightarrow> pyval \<Rightarrow> pyval" where
  "s3_record bucket key =
     PDict [(''s3'', PDict [(''bucket'', PDict [(''name'', bucket)]),
                            (''object'', PDict [(''key'', key)])])]"


text \<open>The detection has a label whose lowercased form is one of the outlier classes.\<close>

definition label_in_outlier_classes :: "detector_env \<Rightarrow> pyval \<Rightarrow> bool" where
  "label_in_outlier_classes env d =
     (case d of
        PDict kvs \<Rightarrow>
          (case map_of kvs ''label'' of
             None \<Rightarrow> False
           | Some l \<Rightarrow> lower (str_of env l) \<in> OUTLIER_CLASSES env)
      | _ \<Rightarrow> False)"

text \<open>The entry recorded for a matching detection, with the two defaults.\<close>

definition outlier_entry :: "pyval \<Rightarrow> (string \<times> pyval) list \<Rightarrow> pyval" where
  "outlier_entry class_label kvs =
     PDict [(''class'', class_label),
            (''confidence'', (case map_of kvs ''confidence'' of
                                Some c \<Rightarrow> c | None \<Rightarrow> PFloat (Finite 0))),
            (''box'', (case map_of kvs ''bbox'' of Some b \<Rightarrow> b | None \<Rightarrow> PList []))]"


text \<open>\<open>old\<close> occurs in \<open>s\<close> at none of the first \<open>n\<close> positions.\<close>

definition absent_before :: "string \<Rightarrow> string \<Rightarrow> nat \<Rightarrow> bool" where
  "absent_before old s n = (\<forall>i<n. take (length old) (drop i s) \<noteq> old)"

text \<open>
  \<open>not_older a b\<close>: the timestamp of \<open>a\<close> is at least that of \<open>b\<close>, for two
  numbers or for two strings.
\<close>

definition not_older :: "pyval \<Rightarrow> pyval \<Rightarrow> bool" where
  "not_older a b =
     (case key_number (timestamp_key a) of
        Some x \<Rightarrow> (case key_number (timestamp_key b) of Some y \<Rightarrow> y \<le> x | None \<Rightarrow> False)
      | None \<Rightarrow>
          (case timestamp_key a of
             PStr s \<Rightarrow> (case timestamp_key b of PStr t \<Rightarrow> t \<le> s | _ \<Rightarrow> False)
           | _ \<Rightarrow> False))"

text \<open>The value of a parameter of the query, or the default of the handler.\<close>

definition param :: "(string \<times> pyval) list \<Rightarrow> string \<Rightarrow> pyval \<Rightarrow> pyval" where
  "param params k dflt = (case map_of params k of Some v \<Rightarrow> v | None \<Rightarrow> dflt)"

text \<open>The timestamp of the item is a number within the bounds.\<close>

definition timestamp_within :: "int option \<Rightarrow> int option \<Rightarrow> pyval \<Rightarrow> bool" where
  "timestamp_within lo hi x =
     (case subscript x ''timestamp'' of
        Inr t \<Rightarrow>
          (case number_of t of
             Some r \<Rightarrow> (case lo of Some s \<Rightarrow> of_int s \<le> r | None \<Rightarrow> True) \<and>
                       (case hi of Some e \<Rightarrow> r \<le> of_int e | None \<Rightarrow> True)
           | None \<Rightarrow> False)
      | Inl e \<Rightarrow> False)"

text \<open>
  The record is a storage notification for the object \<open>key\<close> of \<open>bucket\<close>: the two
  values that lines 79 and 80 read from it.
\<close>

definition notifies :: "pyval \<Rightarrow> pyval \<Rightarrow> pyval \<Rightarrow> bool" where
  "notifies rcd bucket key \<longleftrightarrow>
     and_then (subscript rcd ''s3'') (\<lambda>s3.
       and_then (subscript s3 ''bucket'') (\<lambda>b. subscript b ''name'')) = Inr bucket \<and>
     and_then (subscript rcd ''s3'') (\<lambda>s3.
       and_then (subscript s3 ''object'') (\<lambda>obj. subscript obj ''key'')) = Inr key"

text \<open>
  A detection that line 56 passes over: a mapping whose \<^verbatim>\<open>bbox\<close> is absent or falsy,
  or has a length other than four.
\<close>

definition box_unusable :: "pyval \<Rightarrow> bool" where
  "box_unusable det =
     (case det of
        PDict kvs \<Rightarrow>
          (case map_of kvs ''bbox'' of
             None \<Rightarrow> True
           | Some box \<Rightarrow>
               \<not> truthy box \<or> (case py_len box of Inr n \<Rightarrow> n \<noteq> 4 | Inl e \<Rightarrow> False))
      | _ \<Rightarrow> False)"

subsection \<open>A small world to run the handlers in\<close>

text \<open>
  Two result documents in a bucket: the first has no frame number and a file name
  without the word frame, the second is complete. Parsing is a table from the stored
  text to the value it denotes.
\<close>

definition demo_doc_f1 :: pyval where
  "demo_doc_f1 =
     PDict [(''detections'',
             PList [PDict [(''label'', PStr ''tampering''),
                           (''confidence'', PFloat (Finite (9 / 10))),
                           (''bbox'', PList [PInt 10, PInt 10, PInt 50, PInt 50])]])]"

definition demo_doc_frame2 :: pyval where
  "demo_doc_frame2 =
     PDict [(''video_id'', PStr ''vid1.mp4''),
            (''frame_number'', PInt 2),
            (''detections'',
             PList [PDict [(''label'', PStr ''Person''), (''confidence'', PFloat (Finite (1 / 2)))],
                    PDict [(''label'', PStr ''No_Helmet'')]]),
            (''processed_frame_url'', PStr ''N/A (Processed by SageMaker)'')]"

definition demo_doc_frame3 :: pyval where
  "demo_doc_frame3 =
     PDict [(''video_id'', PStr ''vid1.mp4''),
            (''frame_number'', PInt 3),
            (''detections'',
             PList [PDict [(''label'', PStr ''helmet''), (''confidence'', PInt 1)],
                    PDict [(''label'', PStr [])],
                    PDict [(''label'', PStr ''no_helmet_vest'')]]),
            (''processed_frame_url'', PStr ''https://frames.example/vid1/3.jpg'')]"

definition demo_doc_frame4 :: pyval where
  "demo_doc_frame4 =
     PDict [(''video_id'', PStr ''vid1.mp4''),
            (''frame_number'', PInt 4),
            (''detections'', PList [PDict [(''label'', PStr ''INTRUSION'')]]),
            (''processed_frame_url'', PStr [])]"

definition demo_doc_frame5 :: pyval where
  "demo_doc_frame5 =
     PDict [(''video_id'', PStr ''vid1.mp4''),
            (''frame_number'', PInt 5),
            (''detections'',
             PList [PDict [(''label'', PStr ''no_suit''),
                           (''confidence'', PFloat (Finite (4 / 5)))]]),
            (''processed_frame_url'', PStr ''https://frames.example/vid1/5.jpg'')]"

definition demo_bucket :: "(string \<times> string) list" where
  "demo_bucket =
     [(''inference-results/vid1/f1.json'', ''text of f1''),
      (''inference-results/vid1.mp4/frame_00002.json'', ''text of frame 2''),
      (''inference-results/vid1.mp4/frame_00003.json'', ''text of frame 3''),
      (''inference-results/vid1.mp4/frame_00004.json'', ''text of frame 4''),
      (''inference-results/vid1.mp4/frame_00005.json'', ''text of frame 5'')]"

definition demo_documents :: "(string \<times> pyval) list" where
  "demo_documents =
     [(''text of f1'', demo_doc_f1), (''text of frame 2'', demo_doc_frame2),
      (''text of frame 3'', demo_doc_frame3), (''text of frame 4'', demo_doc_frame4),
      (''text of frame 5'', demo_doc_frame5)]"

text \<open>Locators that the demo parser knows, with their bucket and path.\<close>

definition demo_locators :: "(pyval \<times> string \<times> string) list" where
  "demo_locators =
     [(PStr ''s3://annotated/vid1/frame_3.jpg'', (''annotated'', ''/vid1/frame_3.jpg''))]"

definition demo_env :: detector_env where
  "demo_env =
     \<lparr> unquote_plus = (\<lambda>s. s),
       urlparse = (\<lambda>u. case map_of demo_locators u of
                           Some p \<Rightarrow> Inr p
                         | None \<Rightarrow> Inl (Raised ValueError ''not a locator'')),
       json_loads = (\<lambda>t. case map_of demo_documents t of
                             Some v \<Rightarrow> Inr v
                           | None \<Rightarrow> Inl (Raised ValueError ''Expecting value'')),
       json_dumps_error = (\<lambda>v. None),
       py_str = (\<lambda>v. ''object''),
       int_of_str = (\<lambda>t. if t \<noteq> [] \<and> (\<forall>c\<in>set t. is_digit c)
                         then Inr (int_of_digits t)
                         else Inl (Raised ValueError ''invalid literal for int()'')),
       posix_path = (\<lambda>ps. concat ps),
       s3_get_object = (\<lambda>b k. case map_of demo_bucket k of
                                  Some t \<Rightarrow> Inr t
                                | None \<Rightarrow> Inl (Raised ServiceError ''NoSuchKey'')),
       s3_put_object_error = (\<lambda>b k body. None),
       s3_generate_presigned_url = (\<lambda>b k n. Inr (PList [PStr ''signed'', b, k, PInt (int n)])),
       sm_invoke_endpoint = (\<lambda>n t. Inl (Raised ServiceError ''no endpoint'')),
       table_put_item_error = (\<lambda>i. None),
       table_items = [],
       table_scan_error = None,
       utcnow_epoch = 1700000000,
       utcnow_iso = ''2023-11-14T22:13:20'',
       OUTLIER_CLASSES_STR = ''tampering,intrusion,unauthorized_access,no_helmet,no_suit'' \<rparr>"

text \<open>The same world when no link can be signed.\<close>

definition demo_env_no_links :: detector_env where
  "demo_env_no_links =
     demo_env \<lparr> s3_generate_presigned_url :=
                  (\<lambda>b k n. Inl (Raised ServiceError ''NoCredentials'')) \<rparr>"

text \<open>The shape of the items that the Detector writes in this world.\<close>

definition demo_item :: "int \<Rightarrow> string \<Rightarrow> pyval \<Rightarrow> pyval \<Rightarrow> string \<Rightarrow> pyval \<Rightarrow> int \<Rightarrow> pyval" where
  "demo_item n stem image_key url cls conf n_total =
     PDict [(''video_frame_timestamp'', PStr (''vid1.mp4_'' @ stem)),
            (''timestamp'', PInt 1700000000),
            (''videoName'', PStr ''vid1.mp4''),
            (''frameNumber'', PInt n),
            (''s3Bucket'', PStr ''results''),
            (''s3Key'', PStr (''inference-results/vid1.mp4/'' @ stem @ ''.json'')),
            (''s3ImageKey'', image_key),
            (''presignedImageUrl'', url),
            (''outliers'',
             PList [PDict [(''class'', PStr cls), (''confidence'', conf), (''box'', PList [])]]),
            (''totalDetections'', PInt n_total),
            (''outlierCount'', PInt 1),
            (''timestampISO'', PStr ''2023-11-14T22:13:20Z'')]"

subsection \<open>A small table to query\<close>

definition demo_event_a :: pyval where
  "demo_event_a =
     PDict [(''video_frame_timestamp'', PStr ''vid1_frame_1''),
            (''timestamp'', PDecimal (Finite 100)),
            (''videoName'', PStr ''vid1''),
            (''s3Bucket'', PStr ''results''),
            (''s3ImageKey'', PStr ''extracted-frames/vid1/frame_1.jpg''),
            (''presignedImageUrl'', PStr ''https://old.example/a'')]"

definition demo_event_b :: pyval where
  "demo_event_b =
     PDict [(''video_frame_timestamp'', PStr ''vid2_frame_7''),
            (''timestamp'', PDecimal (Finite 300)),
            (''videoName'', PStr ''vid2''),
            (''s3Bucket'', PStr ''results''),
            (''s3ImageKey'', PStr ''extracted-frames/vid2/frame_7.jpg''),
            (''presignedImageUrl'', PStr ''https://old.example/b'')]"

definition demo_event_c :: pyval where
  "demo_event_c =
     PDict [(''video_frame_timestamp'', PStr ''vid1_frame_3''),
            (''timestamp'', PDecimal (Finite 200)),
            (''videoName'', PStr ''vid1''),
            (''annotated_frame_s3_uri'', PStr ''s3://annotated/vid1/frame_3.jpg'')]"

definition demo_table :: detector_env where
  "demo_table = demo_env \<lparr> table_items := [demo_event_a, demo_event_b, demo_event_c] \<rparr>"

definition demo_table_no_links :: detector_env where
  "demo_table_no_links =
     demo_env_no_links \<lparr> table_items := [demo_event_a, demo_event_b, demo_event_c] \<rparr>"

text \<open>A GET request with the given query parameters.\<close>

definition get_request :: "(string \<times> pyval) list \<Rightarrow> pyval" where
  "get_request params =
     PDict [(''httpMethod'', PStr ''GET''), (''queryStringParameters'', PDict params)]"

text \<open>The first and the third event with the links that the demo signer gives.\<close>

definition demo_event_a_fresh :: pyval where
  "demo_event_a_fresh =
     PDict [(''video_frame_timestamp'', PStr ''vid1_frame_1''),
            (''timestamp'', PDecimal (Finite 100)),
            (''videoName'', PStr ''vid1''),
            (''s3Bucket'', PStr ''results''),
            (''s3ImageKey'', PStr ''extracted-frames/vid1/frame_1.jpg''),
            (''presignedImageUrl'',
             PList [PStr ''signed'', PStr ''results'',
                    PStr ''extracted-frames/vid1/frame_1.jpg'', PInt 3600])]"

definition demo_event_b_fresh :: pyval where
  "demo_event_b_fresh =
     PDict [(''video_frame_timestamp'', PStr ''vid2_frame_7''),
            (''timestamp'', PDecimal (Finite 300)),
            (''videoName'', PStr ''vid2''),
            (''s3Bucket'', PStr ''results''),
            (''s3ImageKey'', PStr ''extracted-frames/vid2/frame_7.jpg''),
            (''presignedImageUrl'',
             PList [PStr ''signed'', PStr ''results'',
                    PStr ''extracted-frames/vid2/frame_7.jpg'', PInt 3600])]"

definition demo_event_c_fresh :: pyval where
  "demo_event_c_fresh =
     PDict [(''video_frame_timestamp'', PStr ''vid1_frame_3''),
            (''timestamp'', PDecimal (Finite 200)),
            (''videoName'', PStr ''vid1''),
            (''annotated_frame_s3_uri'', PStr ''s3://annotated/vid1/frame_3.jpg''),
            (''presignedAnnotatedImageUrl'',
             PList [PStr ''signed'', PStr ''annotated'', PStr ''vid1/frame_3.jpg'', PInt 3600])]"

subsection \<open>A small imaging library to annotate with\<close>

text \<open>
  An opened image is the bytes it came from and the shapes drawn on it so far. A file
  opens when it carries one of two markers, a box is drawn when it starts with two
  integers, and saving writes the marker and one character per shape.
\<close>

datatype shape = Frame pyval string | Patch "rat \<times> rat \<times> rat \<times> rat" string | Caption rat string

record canvas =
  opened_from :: string
  shapes :: "shape list"

definition demo_is_image :: "string \<Rightarrow> bool" where
  "demo_is_image b = (startswith b ''JFIF'' \<or> startswith b ''PNG'')"

definition demo_corner :: "pyval \<Rightarrow> exn + rat \<times> rat" where
  "demo_corner box =
     (case box of
        PList (PInt x # PInt y # rest) \<Rightarrow> Inr (of_int x, of_int y)
      | _ \<Rightarrow> Inl (Raised TypeError ''coordinates must be numbers''))"

primrec shape_mark :: "shape \<Rightarrow> string" where
  "shape_mark (Frame box color) = ''F''"
| "shape_mark (Patch area color) = ''P''"
| "shape_mark (Caption y text) = ''C''"

definition demo_pil :: "canvas pil" where
  "demo_pil =
     \<lparr> Image_open = (\<lambda>b. if demo_is_image b then Inr \<lparr> opened_from = b, shapes = [] \<rparr>
                          else Inl (Raised ValueError ''cannot identify image file'')),
       rectangle_outline = (\<lambda>im box color.
         and_then (demo_corner box) (\<lambda>c. Inr (im \<lparr> shapes := shapes im @ [Frame box color] \<rparr>))),
       label_text = (\<lambda>label confidence.
         and_then (as_str label) (\<lambda>s. Inr (s @ '' (%)''))),
       text_box = (\<lambda>im box text.
         and_then (demo_corner box) (\<lambda>(x, y). Inr (x, y, x + 6 * of_nat (length text), y + 11))),
       rectangle_fill = (\<lambda>im area color. Inr (im \<lparr> shapes := shapes im @ [Patch area color] \<rparr>)),
       draw_text = (\<lambda>im box y text. Inr (im \<lparr> shapes := shapes im @ [Caption y text] \<rparr>)),
       save_jpeg = (\<lambda>im. Inr (''JFIF'' @ concat (map shape_mark (shapes im)))) \<rparr>"

definition demo_det_helmet :: pyval where
  "demo_det_helmet =
     PDict [(''label'', PStr ''helmet''), (''confidence'', PFloat (Finite (9/10))),
            (''bbox'', PList [PInt 10, PInt 20, PInt 110, PInt 220])]"

definition demo_det_suit :: pyval where
  "demo_det_suit =
     PDict [(''label'', PStr ''safety suit''), (''confidence'', PFloat (Finite (1/2))),
            (''bbox'', PList [PInt 5, PInt 5, PInt 50, PInt 50])]"

definition demo_det_no_box :: pyval where
  "demo_det_no_box = PDict [(''label'', PStr ''person''), (''confidence'', PFloat (Finite (4/5)))]"

definition demo_det_short_box :: pyval where
  "demo_det_short_box =
     PDict [(''label'', PStr ''person''), (''bbox'', PList [PInt 1, PInt 2, PInt 3])]"

definition demo_det_number_box :: pyval where
  "demo_det_number_box = PDict [(''label'', PStr ''person''), (''bbox'', PInt 7)]"

section \<open>Properties\<close>

subsection \<open>Searching a file name for a frame number\<close>

lemma takeWhile_run:
  assumes "\<forall>c\<in>set run. is_digit c" and "post = [] \<or> \<not> is_digit (hd post)"
  shows "takeWhile is_digit (run @ post) = run"
proof -
  have "takeWhile is_digit post = []"
    using assms(2) by (cases post) auto
  with assms(1) show ?thesis by simp
qed

lemma re_search_digits_first_run:
  assumes "\<forall>c\<in>set pre. \<not> is_digit c" and "run \<noteq> []" and "\<forall>c\<in>set run. is_digit c"
    and "post = [] \<or> \<not> is_digit (hd post)"
  shows "re_search_digits (pre @ run @ post) = Some run"
proof -
  have d: "dropWhile (\<lambda>c. \<not> is_digit c) (pre @ run @ post) = run @ post"
    using assms(1,2,3) by (cases run) auto
  show ?thesis
    using assms(2) by (simp add: re_search_digits_def d takeWhile_run[OF assms(3,4)])
qed

lemma re_search_digits_none:
  "(\<forall>c\<in>set s. \<not> is_digit c) \<Longrightarrow> re_search_digits s = None"
  by (simp add: re_search_digits_def)

lemma dropWhile_digit_post:
  "dropWhile is_digit r = [] \<or> \<not> is_digit (hd (dropWhile is_digit r))"
  by (metis hd_dropWhile)

lemma match_frame_at_token:
  assumes "frame_token_at s run"
  shows "match_frame_at s = Some run"
proof -
  from assms obtain f sep post where s: "s = f @ sep @ run @ post"
    and f: "lower f = ''frame''" and sep: "sep = [] \<or> sep = ''_'' \<or> sep = ''-''"
    and ne: "run \<noteq> []" and dig: "\<forall>c\<in>set run. is_digit c"
    and post: "post = [] \<or> \<not> is_digit (hd post)"
    unfolding frame_token_at_def by blast
  have "length (lower f) = length f" by (simp add: lower_def)
  with f have len: "length f = 5" by simp
  have tk: "take 5 s = f" and dr: "drop 5 s = sep @ run @ post"
    using len s by simp_all
  obtain d ds where run: "run = d # ds" using ne by (cases run) auto
  have dd: "is_digit d" using dig run by simp
  have nd: "\<not> is_digit CHR ''_''" "\<not> is_digit CHR ''-''" by (simp_all add: is_digit_def)
  have tw: "takeWhile is_digit (run @ post) = run" by (rule takeWhile_run[OF dig post])
  from sep show ?thesis
  proof (elim disjE)
    assume "sep = []"
    then show ?thesis
      using tw dd nd run by (auto simp: match_frame_at_def tk dr f)
  next
    assume "sep = ''_''"
    then show ?thesis
      using tw dd nd run by (auto simp: match_frame_at_def tk dr f)
  next
    assume "sep = ''-''"
    then show ?thesis
      using tw dd nd run by (auto simp: match_frame_at_def tk dr f)
  qed
qed

lemma match_frame_at_Some:
  assumes "match_frame_at s = Some run"
  shows "frame_token_at s run"
proof -
  from assms have f: "lower (take 5 s) = ''frame''"
    by (auto simp: match_frame_at_def split: if_splits)
  from assms obtain c r where dr: "drop 5 s = c # r"
    by (auto simp: match_frame_at_def split: if_splits list.splits)
  have s: "s = take 5 s @ c # r" using dr by (metis append_take_drop_id)
  show ?thesis
  proof (cases "(c = CHR ''_'' \<or> c = CHR ''-'') \<and> r \<noteq> [] \<and> is_digit (hd r)")
    case True
    then have run: "run = takeWhile is_digit r"
      using assms f dr by (simp add: match_frame_at_def)
    have ne: "run \<noteq> []" using True run by (cases r) auto
    have dig: "\<forall>c\<in>set run. is_digit c" using run by (auto dest: set_takeWhileD)
    have "s = take 5 s @ [c] @ run @ dropWhile is_digit r"
      using s run by simp
    moreover have "[c] = ''_'' \<or> [c] = ''-''" using True by auto
    ultimately show ?thesis
      unfolding frame_token_at_def
      using f ne dig dropWhile_digit_post[of r] by blast
  next
    case False
    then have c: "is_digit c" and run: "run = takeWhile is_digit (c # r)"
      using assms f dr by (auto simp: match_frame_at_def split: if_splits)
    have ne: "run \<noteq> []" using c run by simp
    have dig: "\<forall>c\<in>set run. is_digit c" using run by (auto dest: set_takeWhileD)
    have "s = take 5 s @ [] @ run @ dropWhile is_digit (c # r)"
      using s run by simp
    then show ?thesis
      unfolding frame_token_at_def
      using f ne dig dropWhile_digit_post[of "c # r"] by blast
  qed
qed

lemma match_frame_at_None_iff:
  "match_frame_at s = None \<longleftrightarrow> (\<forall>run. \<not> frame_token_at s run)"
  by (metis match_frame_at_Some match_frame_at_token not_Some_eq option.distinct(1))

lemma re_search_frame_leftmost:
  assumes "\<forall>i<length pre. \<forall>r. \<not> frame_token_at (drop i (pre @ rest)) r"
    and "frame_token_at rest run"
  shows "re_search_frame (pre @ rest) = Some run"
  using assms
proof (induction pre)
  case Nil
  then show ?case
    using match_frame_at_token[of rest run] by (cases rest) (auto simp: frame_token_at_def)
next
  case (Cons a pre)
  have "match_frame_at (a # pre @ rest) = None"
    using Cons.prems(1)[rule_format, of 0] by (simp add: match_frame_at_None_iff)
  moreover have "\<forall>i<length pre. \<forall>r. \<not> frame_token_at (drop i (pre @ rest)) r"
  proof (intro allI impI)
    fix i r assume "i < length pre"
    then show "\<not> frame_token_at (drop i (pre @ rest)) r"
      using Cons.prems(1)[rule_format, of "Suc i" r] by simp
  qed
  ultimately show ?case using Cons.IH Cons.prems(2) by simp
qed

lemma re_search_frame_None:
  "(\<forall>i<length s. \<forall>r. \<not> frame_token_at (drop i s) r) \<Longrightarrow> re_search_frame s = None"
proof (induction s)
  case Nil
  then show ?case by simp
next
  case (Cons a s)
  have "match_frame_at (a # s) = None"
    using Cons.prems[rule_format, of 0] by (simp add: match_frame_at_None_iff)
  moreover have "\<forall>i<length s. \<forall>r. \<not> frame_token_at (drop i s) r"
  proof (intro allI impI)
    fix i r assume "i < length s"
    then show "\<not> frame_token_at (drop i s) r"
      using Cons.prems[rule_format, of "Suc i" r] by simp
  qed
  ultimately show ?case using Cons.IH by simp
qed

lemma frame_token_has_digit:
  assumes "frame_token_at s run"
  shows "\<exists>c\<in>set s. is_digit c"
proof -
  from assms obtain f sep post where "s = f @ sep @ run @ post" "run \<noteq> []"
    "\<forall>c\<in>set run. is_digit c"
    unfolding frame_token_at_def by blast
  then show ?thesis by (cases run) auto
qed

lemma re_search_frame_no_digit:
  assumes "\<forall>c\<in>set s. \<not> is_digit c"
  shows "re_search_frame s = None"
proof (rule re_search_frame_None, intro allI impI notI)
  fix i r assume "frame_token_at (drop i s) r"
  then obtain c where "c \<in> set (drop i s)" "is_digit c"
    using frame_token_has_digit by blast
  then show False using assms by (meson in_set_dropD)
qed

lemma load_record_no_frame_number:
  assumes "startswith (unquote_plus env k) ''inference-results/''"
    and "endswith (unquote_plus env k) ''.json''"
    and "s3_get_object env bucket (unquote_plus env k) = Inr body"
    and "json_loads env body = Inr (PDict kvs)"
    and "map_of kvs ''frame_number'' = None"
    and "detector_extract_frame_number (last (split_char CHR ''/'' (unquote_plus env k))) = None"
  shows "load_record env (s3_record bucket (PStr k)) = Errored"
  using assms
  by (simp add: load_record_def s3_record_def attempt_def subscript_def decode_key_def
      dict_get_def Let_def)

text \<open>
  C4, as the code has it. The Caller reads the first run of digits of the name, and
  answers 0 when there is none. The Detector reads the digits of the first place where
  the word frame (in any letter case, with at most one separator) is directly followed
  by a digit, and answers None when there is no such place, whatever other digits the
  name has. A record whose document has no frame number and whose file name gives None
  is counted as an error.
\<close>

theorem frame_number_extraction:
  "(\<forall>pre run post.
      (\<forall>c\<in>set pre. \<not> is_digit c) \<and> run \<noteq> [] \<and> (\<forall>c\<in>set run. is_digit c) \<and>
      (post = [] \<or> \<not> is_digit (hd post)) \<longrightarrow>
      caller_extract_frame_number (PStr (pre @ run @ post)) = int_of_digits run) \<and>
   (\<forall>pre rest run.
      (\<forall>i<length pre. \<forall>r. \<not> frame_token_at (drop i (pre @ rest)) r) \<and>
      frame_token_at rest run \<longrightarrow>
      detector_extract_frame_number (pre @ rest) = Some (int_of_digits run)) \<and>
   (\<forall>s. (\<forall>i<length s. \<forall>r. \<not> frame_token_at (drop i s) r) \<longrightarrow>
      detector_extract_frame_number s = None) \<and>
   (\<forall>s. (\<forall>c\<in>set s. \<not> is_digit c) \<longrightarrow>
      caller_extract_frame_number (PStr s) = 0 \<and> detector_extract_frame_number s = None) \<and>
   (\<forall>env bucket k body kvs st.
      startswith (unquote_plus env k) ''inference-results/'' \<and>
      endswith (unquote_plus env k) ''.json'' \<and>
      s3_get_object env bucket (unquote_plus env k) = Inr body \<and>
      json_loads env body = Inr (PDict kvs) \<and>
      map_of kvs ''frame_number'' = None \<and>
      detector_extract_frame_number (last (split_char CHR ''/'' (unquote_plus env k))) = None \<longrightarrow>
      process_record env (s3_record bucket (PStr k)) = Errored \<and>
      detector_step env st (s3_record bucket (PStr k)) =
        st \<lparr> error_count := error_count st + 1 \<rparr>)"
proof (intro conjI allI impI)
  fix pre run post
  assume "(\<forall>c\<in>set pre. \<not> is_digit c) \<and> run \<noteq> [] \<and> (\<forall>c\<in>set run. is_digit c) \<and>
      (post = [] \<or> \<not> is_digit (hd post))"
  then have "re_search_digits (pre @ run @ post) = Some run"
    using re_search_digits_first_run by blast
  then show "caller_extract_frame_number (PStr (pre @ run @ post)) = int_of_digits run"
    by (simp add: caller_extract_frame_number_def)
next
  fix pre rest run
  assume "(\<forall>i<length pre. \<forall>r. \<not> frame_token_at (drop i (pre @ rest)) r) \<and>
      frame_token_at rest run"
  then have "re_search_frame (pre @ rest) = Some run"
    using re_search_frame_leftmost by blast
  then show "detector_extract_frame_number (pre @ rest) = Some (int_of_digits run)"
    by (simp add: detector_extract_frame_number_def)
next
  fix s
  assume "\<forall>i<length s. \<forall>r. \<not> frame_token_at (drop i s) r"
  then show "detector_extract_frame_number s = None"
    by (simp add: detector_extract_frame_number_def re_search_frame_None)
next
  fix s
  assume "\<forall>c\<in>set s. \<not> is_digit c"
  then show "caller_extract_frame_number (PStr s) = 0"
    by (simp add: caller_extract_frame_number_def re_search_digits_none)
next
  fix s
  assume "\<forall>c\<in>set s. \<not> is_digit c"
  then show "detector_extract_frame_number s = None"
    by (simp add: detector_extract_frame_number_def re_search_frame_no_digit)
next
  fix env :: detector_env and bucket k body kvs and st :: detector_state
  assume h: "startswith (unquote_plus env k) ''inference-results/'' \<and>
      endswith (unquote_plus env k) ''.json'' \<and>
      s3_get_object env bucket (unquote_plus env k) = Inr body \<and>
      json_loads env body = Inr (PDict kvs) \<and>
      map_of kvs ''frame_number'' = None \<and>
      detector_extract_frame_number (last (split_char CHR ''/'' (unquote_plus env k))) = None"
  then have l: "load_record env (s3_record bucket (PStr k)) = Errored"
    using load_record_no_frame_number by blast
  then show "process_record env (s3_record bucket (PStr k)) = Errored"
    by (simp add: process_record_def)
  then show "detector_step env st (s3_record bucket (PStr k)) =
        st \<lparr> error_count := error_count st + 1 \<rparr>"
    by (simp add: detector_step_def)
qed

theorem frame_number_extraction_witness:
  "caller_extract_frame_number (PStr ''video2_frame_00017.json'') = 2 \<and>
   detector_extract_frame_number ''video2_frame_00017.json'' = Some 17 \<and>
   detector_extract_frame_number ''f1.json'' = None \<and>
   caller_extract_frame_number (PStr ''clip.json'') = 0 \<and>
   detector_extract_frame_number ''clip.json'' = None \<and>
   process_record demo_env (s3_record (PStr ''b'') (PStr ''inference-results/vid1/f1.json''))
     = Errored"
proof -
  note T = frame_number_extraction
  have nd: "\<not> is_digit CHR ''_''" "\<not> is_digit CHR ''.''" "is_digit CHR ''2''"
    "\<forall>c\<in>set ''video''. \<not> is_digit c" "\<forall>c\<in>set ''00017''. is_digit c"
    "\<forall>c\<in>set ''clip.json''. \<not> is_digit c"
    by (simp_all add: is_digit_def)
  have a: "caller_extract_frame_number (PStr (''video'' @ ''2'' @ ''_frame_00017.json'')) = int_of_digits ''2''"
    using T[THEN conjunct1, rule_format, of "''video''" "''2''" "''_frame_00017.json''"] nd
    by simp
  have tok: "frame_token_at ''frame_00017.json'' ''00017''"
    unfolding frame_token_at_def
    by (rule exI[of _ "''frame''"], rule exI[of _ "''_''"], rule exI[of _ "''.json''"])
       (simp add: lower_def lower_char_def is_digit_def)
  have none: "\<forall>i<length ''video2_''. \<forall>r. \<not> frame_token_at (drop i (''video2_'' @ ''frame_00017.json'')) r"
    by (simp add: All_less_Suc match_frame_at_None_iff[symmetric] match_frame_at_def lower_def lower_char_def)
  have b: "detector_extract_frame_number (''video2_'' @ ''frame_00017.json'') = Some (int_of_digits ''00017'')"
    using T[THEN conjunct2, THEN conjunct1, rule_format, of "''video2_''" "''frame_00017.json''" "''00017''"]
      tok none by blast
  have none2: "\<forall>i<length ''f1.json''. \<forall>r. \<not> frame_token_at (drop i ''f1.json'') r"
    by (simp add: All_less_Suc match_frame_at_None_iff[symmetric] match_frame_at_def lower_def lower_char_def)
  have c: "detector_extract_frame_number ''f1.json'' = None"
    using T[THEN conjunct2, THEN conjunct2, THEN conjunct1, rule_format, of "''f1.json''"] none2
    by blast
  have d: "caller_extract_frame_number (PStr ''clip.json'') = 0 \<and>
           detector_extract_frame_number ''clip.json'' = None"
    using T[THEN conjunct2, THEN conjunct2, THEN conjunct2, THEN conjunct1, rule_format, of "''clip.json''"]
      nd(6) by blast
  have e: "process_record demo_env (s3_record (PStr ''b'') (PStr ''inference-results/vid1/f1.json''))
     = Errored"
    using T[THEN conjunct2, THEN conjunct2, THEN conjunct2, THEN conjunct2, rule_format,
        of demo_env "''inference-results/vid1/f1.json''" "PStr ''b''" "''text of f1''"
           "[(''detections'',
             PList [PDict [(''label'', PStr ''tampering''),
                           (''confidence'', PFloat (Finite (9 / 10))),
                           (''bbox'', PList [PInt 10, PInt 10, PInt 50, PInt 50])]])]", THEN conjunct1] c
    by (simp add: demo_env_def startswith_def endswith_def demo_bucket_def demo_documents_def
        demo_doc_f1_def)
  have v: "int_of_digits ''2'' = 2" "int_of_digits ''00017'' = 17"
    by (simp_all add: int_of_digits_def digit_value_def)
  show ?thesis using a b c d e v by simp
qed

theorem detector_extraction_counterexample:
  "is_digit CHR ''1'' \<and> re_search_digits ''f1.json'' = Some ''1'' \<and>
   caller_extract_frame_number (PStr ''f1.json'') = 1 \<and>
   detector_extract_frame_number ''f1.json'' = None"
  by (simp add: is_digit_def re_search_digits_def caller_extract_frame_number_def
      detector_extract_frame_number_def match_frame_at_def lower_def lower_char_def
      int_of_digits_def digit_value_def)

subsection \<open>Matching detections against the outlier classes\<close>

lemma lower_Nil_iff: "lower s = [] \<longleftrightarrow> s = []"
  by (simp add: lower_def)


lemma find_outliers_skip:
  assumes "map_of kvs ''label'' = None \<or> (\<exists>l. map_of kvs ''label'' = Some l \<and> \<not> truthy l)"
  shows "find_outliers env acc (PDict kvs # rest) = find_outliers env acc rest"
  using assms by (auto simp: dict_get_def)

lemma find_outliers_match:
  assumes "map_of kvs ''label'' = Some l" and "truthy l"
    and "lower (str_of env l) \<in> OUTLIER_CLASSES env"
    and "format_fixed (case map_of kvs ''confidence'' of Some c \<Rightarrow> c | None \<Rightarrow> PFloat (Finite 0)) = None"
  shows "find_outliers env acc (PDict kvs # rest) =
         find_outliers env (acc @ [outlier_entry l kvs]) rest"
  using assms by (simp add: dict_get_def outlier_entry_def)

lemma find_outliers_no_match:
  assumes "map_of kvs ''label'' = Some l" and "lower (str_of env l) \<notin> OUTLIER_CLASSES env"
  shows "find_outliers env acc (PDict kvs # rest) = find_outliers env acc rest"
  using assms by (simp add: dict_get_def)

lemma find_outliers_append:
  "find_outliers env acc (xs @ ys) =
     (case find_outliers env acc xs of
        Inl e \<Rightarrow> Inl e
      | Inr acc' \<Rightarrow> find_outliers env acc' ys)"
proof (induction xs arbitrary: acc)
  case Nil
  then show ?case by simp
next
  case (Cons x xs)
  show ?case
    by (simp add: Cons.IH split: sum.splits option.splits)
qed

lemma find_outliers_extends:
  assumes "find_outliers env acc ps = Inr out"
  shows "\<exists>new. out = acc @ new \<and>
           (new \<noteq> [] \<longrightarrow> (\<exists>d\<in>set ps. label_in_outlier_classes env d))"
  using assms
proof (induction ps arbitrary: acc)
  case Nil
  then show ?case by simp
next
  case (Cons p ps)
  show ?case
  proof (cases p)
    case (PDict kvs)
    show ?thesis
    proof (cases "map_of kvs ''label''")
      case None
      then have "find_outliers env acc ps = Inr out"
        using Cons.prems PDict find_outliers_skip[of kvs env acc ps] by simp
      from Cons.IH[OF this] show ?thesis by auto
    next
      case (Some l)
      show ?thesis
      proof (cases "truthy l \<and> lower (str_of env l) \<in> OUTLIER_CLASSES env")
        case False
        then have "find_outliers env acc ps = Inr out"
          using Cons.prems PDict Some by (auto simp: dict_get_def split: if_splits)
        from Cons.IH[OF this] show ?thesis by auto
      next
        case True
        then have m: "label_in_outlier_classes env p"
          using PDict Some by (simp add: label_in_outlier_classes_def)
        from True Cons.prems PDict Some
        have "find_outliers env (acc @ [outlier_entry l kvs]) ps = Inr out"
          by (auto simp: dict_get_def outlier_entry_def split: option.splits)
        from Cons.IH[OF this] obtain new where "out = (acc @ [outlier_entry l kvs]) @ new"
          by blast
        then show ?thesis using m by auto
      qed
    qed
  qed (use Cons.prems in \<open>simp_all add: dict_get_def\<close>)
qed




lemma load_record_dict:
  assumes "load_record env record = Done c"
  shows "\<exists>kvs. inference_data_of c = PDict kvs"
proof -
  from assms obtain d dets where "dict_get (inference_data_of c) ''detections'' d = Inr dets"
    unfolding load_record_def attempt_def Let_def
    by (auto split: sum.splits if_splits)
  then show ?thesis
    by (cases "inference_data_of c") (simp_all add: dict_get_def)
qed



text \<open>
  C10. A detection without a label, or with a falsy one such as the empty string, is
  passed over wherever it stands in the list: the loop gives what it gives on the list
  without that detection, so it neither adds an entry nor fails the record. A detection
  that matches is recorded with its label as written, with confidence 0.0 when it has
  no confidence and with the empty list when it has no bbox.
\<close>

theorem unlabelled_detection_skipped:
  "(\<forall>env acc before kvs rest.
      map_of kvs ''label'' = None \<or> (\<exists>l. map_of kvs ''label'' = Some l \<and> \<not> truthy l) \<longrightarrow>
      find_outliers env acc (before @ PDict kvs # rest) = find_outliers env acc (before @ rest)) \<and>
   (\<forall>env acc kvs rest. map_of kvs ''label'' = Some (PStr []) \<longrightarrow>
      find_outliers env acc (PDict kvs # rest) = find_outliers env acc rest) \<and>
   (\<forall>env acc kvs rest l out.
      map_of kvs ''label'' = Some l \<and> truthy l \<and> lower (str_of env l) \<in> OUTLIER_CLASSES env \<and>
      find_outliers env acc (PDict kvs # rest) = Inr out \<longrightarrow>
      (\<exists>new. out = acc @
         PDict [(''class'', l),
                (''confidence'', (case map_of kvs ''confidence'' of
                                    Some c \<Rightarrow> c | None \<Rightarrow> PFloat (Finite 0))),
                (''box'', (case map_of kvs ''bbox'' of
                             Some b \<Rightarrow> b | None \<Rightarrow> PList []))] # new)) \<and>
   (\<forall>env acc kvs rest l.
      map_of kvs ''label'' = Some l \<and> truthy l \<and> lower (str_of env l) \<in> OUTLIER_CLASSES env \<and>
      map_of kvs ''confidence'' = None \<and> map_of kvs ''bbox'' = None \<longrightarrow>
      find_outliers env acc (PDict kvs # rest) =
        find_outliers env
          (acc @ [PDict [(''class'', l), (''confidence'', PFloat (Finite 0)),
                         (''box'', PList [])]]) rest)"
proof (intro conjI allI impI)
  fix env acc before kvs rest
  assume h: "map_of kvs ''label'' = None \<or> (\<exists>l. map_of kvs ''label'' = Some l \<and> \<not> truthy l)"
  have "find_outliers env acc (before @ PDict kvs # rest) =
        (case find_outliers env acc before of
           Inl e \<Rightarrow> Inl e | Inr acc' \<Rightarrow> find_outliers env acc' (PDict kvs # rest))"
    by (rule find_outliers_append)
  also have "\<dots> = (case find_outliers env acc before of
           Inl e \<Rightarrow> Inl e | Inr acc' \<Rightarrow> find_outliers env acc' rest)"
    by (simp only: find_outliers_skip[OF h])
  also have "\<dots> = find_outliers env acc (before @ rest)"
    by (rule find_outliers_append[symmetric])
  finally show "find_outliers env acc (before @ PDict kvs # rest)
                  = find_outliers env acc (before @ rest)" .
next
  fix env acc kvs rest
  assume "map_of kvs ''label'' = Some (PStr [])"
  then show "find_outliers env acc (PDict kvs # rest) = find_outliers env acc rest"
    by (intro find_outliers_skip) simp
next
  fix env acc kvs rest l out
  assume h: "map_of kvs ''label'' = Some l \<and> truthy l \<and>
      lower (str_of env l) \<in> OUTLIER_CLASSES env \<and>
      find_outliers env acc (PDict kvs # rest) = Inr out"
  then have fmt: "format_fixed (case map_of kvs ''confidence'' of
                                  Some c \<Rightarrow> c | None \<Rightarrow> PFloat (Finite 0)) = None"
    by (auto simp: dict_get_def split: option.splits)
  with h have "find_outliers env (acc @ [outlier_entry l kvs]) rest = Inr out"
    using find_outliers_match[of kvs l env acc rest] by simp
  then obtain new where "out = (acc @ [outlier_entry l kvs]) @ new"
    using find_outliers_extends by blast
  then show "\<exists>new. out = acc @
         PDict [(''class'', l),
                (''confidence'', (case map_of kvs ''confidence'' of
                                    Some c \<Rightarrow> c | None \<Rightarrow> PFloat (Finite 0))),
                (''box'', (case map_of kvs ''bbox'' of
                             Some b \<Rightarrow> b | None \<Rightarrow> PList []))] # new"
    by (simp add: outlier_entry_def)
next
  fix env acc kvs rest l
  assume "map_of kvs ''label'' = Some l \<and> truthy l \<and>
      lower (str_of env l) \<in> OUTLIER_CLASSES env \<and>
      map_of kvs ''confidence'' = None \<and> map_of kvs ''bbox'' = None"
  then show "find_outliers env acc (PDict kvs # rest) =
        find_outliers env
          (acc @ [PDict [(''class'', l), (''confidence'', PFloat (Finite 0)),
                         (''box'', PList [])]]) rest"
    using find_outliers_match[of kvs l env acc rest] by (simp add: outlier_entry_def)
qed

lemma demo_classes:
  "OUTLIER_CLASSES demo_env =
     {''tampering'', ''intrusion'', ''unauthorized_access'', ''no_helmet'', ''no_suit''}"
  by (simp add: OUTLIER_CLASSES_def demo_env_def strip_def is_space_def lower_def lower_char_def)

theorem unlabelled_detection_skipped_witness:
  "find_outliers demo_env []
     [PDict [(''label'', PStr ''helmet'')],
      PDict [(''label'', PStr []), (''confidence'', PStr ''high'')],
      PDict [(''confidence'', PInt 1)],
      PDict [(''label'', PStr ''No_Helmet'')]]
   = Inr [PDict [(''class'', PStr ''No_Helmet''), (''confidence'', PFloat (Finite 0)),
                 (''box'', PList [])]]"
proof -
  note T = unlabelled_detection_skipped
  let ?h = "PDict [(''label'', PStr ''helmet'')]"
  let ?m = "PDict [(''label'', PStr ''No_Helmet'')]"
  have s1: "find_outliers demo_env []
      ([?h] @ PDict [(''label'', PStr []), (''confidence'', PStr ''high'')] #
         [PDict [(''confidence'', PInt 1)], ?m])
    = find_outliers demo_env [] ([?h] @ [PDict [(''confidence'', PInt 1)], ?m])"
    using T[THEN conjunct1, rule_format, of "[(''label'', PStr []), (''confidence'', PStr ''high'')]"
        demo_env "[]" "[?h]" "[PDict [(''confidence'', PInt 1)], ?m]"]
    by simp
  have s2: "find_outliers demo_env [] ([?h] @ PDict [(''confidence'', PInt 1)] # [?m])
    = find_outliers demo_env [] ([?h] @ [?m])"
    using T[THEN conjunct1, rule_format, of "[(''confidence'', PInt 1)]"
        demo_env "[]" "[?h]" "[?m]"]
    by simp
  have nm: "find_outliers demo_env [] ([?h] @ [?m]) = find_outliers demo_env [] [?m]"
    using find_outliers_no_match[of "[(''label'', PStr ''helmet'')]" "PStr ''helmet''" demo_env "[]" "[?m]"]
    by (simp add: demo_classes str_of_def lower_def lower_char_def)
  have m: "find_outliers demo_env [] (PDict [(''label'', PStr ''No_Helmet'')] # []) =
        find_outliers demo_env
          ([] @ [PDict [(''class'', PStr ''No_Helmet''), (''confidence'', PFloat (Finite 0)),
                         (''box'', PList [])]]) []"
    using T[THEN conjunct2, THEN conjunct2, THEN conjunct2, rule_format,
        of "[(''label'', PStr ''No_Helmet'')]" "PStr ''No_Helmet''" demo_env "[]" "[]"]
    by (simp add: demo_classes str_of_def lower_def lower_char_def)
  show ?thesis using s1 s2 nm m by simp
qed


lemma process_record_event:
  assumes "process_record env rcd = Done (Some item)"
  shows "\<exists>c ds. load_record env rcd = Done c \<and>
           find_outliers env [] (predictions_of c) = Inr ds \<and> ds \<noteq> [] \<and>
           save_event env c ds = Done (Some item)"
  using assms
  by (auto simp: process_record_def attempt_def split: outcome.splits sum.splits if_splits)


lemmas demo_run =
  load_record_def attempt_def subscript_def dict_get_def decode_key_def Let_def
  startswith_def endswith_def demo_env_def detector_extract_frame_number_def match_frame_at_def
  lower_def lower_char_def is_digit_def int_of_digits_def digit_value_def s3_record_def
  demo_bucket_def demo_documents_def demo_doc_f1_def demo_doc_frame2_def demo_doc_frame3_def
  demo_doc_frame4_def demo_doc_frame5_def demo_locators_def





subsection \<open>The image URL of an event\<close>

lemma replace_at_start:
  assumes "old \<noteq> []"
  shows "replace old new (old @ rest) = new @ replace old new rest"
proof -
  obtain c cs where "old @ rest = c # cs" using assms by (cases old) auto
  then show ?thesis using assms by (metis append_eq_conv_conj replace.simps(2))
qed

lemma replace_absent:
  assumes "old \<noteq> []" and "absent_before old s (length s)"
  shows "replace old new s = s"
  using assms(2)
proof (induction s)
  case Nil
  then show ?case using assms(1) by simp
next
  case (Cons c cs)
  have h: "take (length old) (c # cs) \<noteq> old"
    using Cons.prems unfolding absent_before_def by (metis drop0 length_greater_0_conv list.distinct(1))
  have "absent_before old cs (length cs)"
    unfolding absent_before_def
  proof (intro allI impI)
    fix i assume "i < length cs"
    then show "take (length old) (drop i cs) \<noteq> old"
      using Cons.prems[unfolded absent_before_def, rule_format, of "Suc i"] by simp
  qed
  then show ?case using Cons.IH h assms(1) by simp
qed

lemma replace_at_end:
  assumes "old \<noteq> []" and "absent_before old (pre @ old) (length pre)"
  shows "replace old new (pre @ old) = pre @ new"
  using assms(2)
proof (induction pre)
  case Nil
  have "replace old new (old @ []) = new @ replace old new []"
    by (rule replace_at_start[OF assms(1)])
  then show ?case using assms(1) by simp
next
  case (Cons c pre)
  have h: "take (length old) (c # pre @ old) \<noteq> old"
    using Cons.prems[unfolded absent_before_def, rule_format, of 0] by simp
  have "absent_before old (pre @ old) (length pre)"
    unfolding absent_before_def
  proof (intro allI impI)
    fix i assume "i < length pre"
    then show "take (length old) (drop i (pre @ old)) \<noteq> old"
      using Cons.prems[unfolded absent_before_def, rule_format, of "Suc i"] by simp
  qed
  then show ?case using Cons.IH h assms(1) by simp
qed

lemma frame_image_key_shape:
  assumes "absent_before ''inference-results/'' (mid @ ''.json'') (length (mid @ ''.json''))"
    and "absent_before ''.json'' ((''extracted-frames/'' @ mid) @ ''.json'')
           (length (''extracted-frames/'' @ mid))"
  shows "replace ''.json'' ''.jpg''
           (replace ''inference-results/'' ''extracted-frames/''
              (''inference-results/'' @ mid @ ''.json''))
         = ''extracted-frames/'' @ mid @ ''.jpg''"
proof -
  have "replace ''inference-results/'' ''extracted-frames/''
              (''inference-results/'' @ mid @ ''.json'')
        = ''extracted-frames/'' @ replace ''inference-results/'' ''extracted-frames/'' (mid @ ''.json'')"
    by (rule replace_at_start) simp
  also have "\<dots> = (''extracted-frames/'' @ mid) @ ''.json''"
    using replace_absent[OF _ assms(1)] by simp
  finally have "replace ''.json'' ''.jpg''
           (replace ''inference-results/'' ''extracted-frames/''
              (''inference-results/'' @ mid @ ''.json''))
       = replace ''.json'' ''.jpg'' ((''extracted-frames/'' @ mid) @ ''.json'')"
    by simp
  also have "\<dots> = (''extracted-frames/'' @ mid) @ ''.jpg''"
    by (rule replace_at_end[OF _ assms(2)]) simp
  finally show ?thesis by simp
qed

lemma process_record_item:
  assumes "process_record env rcd = Done (Some item)" and "load_record env rcd = Done c"
  shows "\<exists>ds ku. find_outliers env [] (predictions_of c) = Inr ds \<and>
           resolve_image_url env c = Inr ku \<and>
           item = floats_to_decimals (item_to_save env c ds ku)"
  using assms
  by (auto simp: process_record_def save_event_def attempt_def Let_def
      split: sum.splits if_splits option.splits)

lemma item_url_field:
  "subscript (floats_to_decimals (item_to_save env c ds ku)) ''presignedImageUrl''
     = Inr (floats_to_decimals (snd ku))"
  by (simp add: item_to_save_def subscript_def Let_def)

lemma item_field_names:
  "\<exists>vs. floats_to_decimals (item_to_save env c ds ku) = PDict vs \<and>
     map fst vs = [''video_frame_timestamp'', ''timestamp'', ''videoName'', ''frameNumber'',
                   ''s3Bucket'', ''s3Key'', ''s3ImageKey'', ''presignedImageUrl'', ''outliers'',
                   ''totalDetections'', ''outlierCount'', ''timestampISO'']"
  by (simp add: item_to_save_def Let_def)

lemma notifies_s3_record: "notifies (s3_record bucket key) bucket key"
  by (simp add: notifies_def s3_record_def subscript_def and_then_def)

lemma notifies_same:
  assumes "notifies rcd bucket key" and "notifies rcd bucket' key'"
  shows "bucket' = bucket \<and> key' = key"
  using assms by (simp add: notifies_def)

lemma load_record_source:
  assumes "load_record env rcd = Done c"
  shows "\<exists>k body. notifies rcd (bucket_name_of c) (PStr k) \<and>
           object_key_of c = unquote_plus env k \<and>
           s3_get_object env (bucket_name_of c) (unquote_plus env k) = Inr body \<and>
           json_loads env body = Inr (inference_data_of c)"
proof -
  from assms obtain s3 b bucket obj raw_key where n:
    "subscript rcd ''s3'' = Inr s3" "subscript s3 ''bucket'' = Inr b"
    "subscript b ''name'' = Inr bucket" "subscript s3 ''object'' = Inr obj"
    "subscript obj ''key'' = Inr raw_key"
    unfolding load_record_def attempt_def by (auto split: sum.splits)
  with assms obtain k where k: "raw_key = PStr k"
    unfolding load_record_def attempt_def decode_key_def
    by (cases raw_key) (auto split: sum.splits)
  from assms n k obtain body doc where d:
    "s3_get_object env bucket (unquote_plus env k) = Inr body" "json_loads env body = Inr doc"
    unfolding load_record_def attempt_def decode_key_def
    by (auto split: sum.splits if_splits)
  from assms n k d have c: "bucket_name_of c = bucket" "object_key_of c = unquote_plus env k"
    "inference_data_of c = doc"
    unfolding load_record_def attempt_def decode_key_def Let_def
    by (auto split: sum.splits if_splits)
  have "notifies rcd bucket (PStr k)"
    using n k by (simp add: notifies_def and_then_def)
  then show ?thesis using c d by auto
qed

lemma loaded_from_source:
  assumes "load_record env rcd = Done c" and "notifies rcd bucket (PStr k)"
    and "s3_get_object env bucket (unquote_plus env k) = Inr body"
    and "json_loads env body = Inr doc"
  shows "bucket_name_of c = bucket \<and> object_key_of c = unquote_plus env k \<and>
         inference_data_of c = doc"
proof -
  from load_record_source[OF assms(1)] obtain k' body' where s:
    "notifies rcd (bucket_name_of c) (PStr k')" "object_key_of c = unquote_plus env k'"
    "s3_get_object env (bucket_name_of c) (unquote_plus env k') = Inr body'"
    "json_loads env body' = Inr (inference_data_of c)"
    by blast
  from notifies_same[OF assms(2) s(1)] have e: "bucket_name_of c = bucket" "k' = k" by simp_all
  with s assms(3,4) show ?thesis by simp
qed

lemma event_url_of_source:
  assumes "process_record env rcd = Done (Some item)" and "notifies rcd bucket (PStr k)"
    and "s3_get_object env bucket (unquote_plus env k) = Inr body"
    and "json_loads env body = Inr doc"
  shows "\<exists>c ku. bucket_name_of c = bucket \<and> object_key_of c = unquote_plus env k \<and>
           inference_data_of c = doc \<and> resolve_image_url env c = Inr ku \<and>
           subscript item ''presignedImageUrl'' = Inr (floats_to_decimals (snd ku))"
proof -
  from assms(1) obtain c where l: "load_record env rcd = Done c"
    using process_record_event by blast
  with assms(1) obtain ds ku where r: "resolve_image_url env c = Inr ku"
    and i: "item = floats_to_decimals (item_to_save env c ds ku)"
    using process_record_item by blast
  from loaded_from_source[OF l assms(2,3,4)] r i show ?thesis
    by (intro exI[of _ c] exI[of _ ku]) (simp add: item_url_field)
qed

text \<open>
  C5, as the code has it. The event has one image URL field. Its value is the
  processed_frame_url of the document that the notification of the record names (the
  object of that bucket and key, read and parsed) when that value is truthy (so neither
  absent, null nor the empty string) and is not the placeholder. Otherwise a link is
  asked for the bucket of the notification, for 86400 seconds, and for its object key
  with inference-results/ replaced by extracted-frames/ and .json by .jpg; the value is
  that link, or the text Error generating URL and the message when the request raises.
  Every event comes from such a notification and document. When the prefix and the suffix
  occur nowhere else in the key, the replacement is the substitution of the prefix and of
  the suffix. Floats in the value are stored as decimals, like everywhere in the item.
\<close>

theorem stored_image_url:
  "(\<forall>env rcd bucket k body kvs item u.
      notifies rcd bucket (PStr k) \<and>
      s3_get_object env bucket (unquote_plus env k) = Inr body \<and>
      json_loads env body = Inr (PDict kvs) \<and>
      process_record env rcd = Done (Some item) \<and>
      map_of kvs ''processed_frame_url'' = Some u \<and>
      truthy u \<and> u \<noteq> PStr ''N/A (Processed by SageMaker)'' \<longrightarrow>
      subscript item ''presignedImageUrl'' = Inr (floats_to_decimals u)) \<and>
   (\<forall>env rcd bucket k body kvs item url.
      notifies rcd bucket (PStr k) \<and>
      s3_get_object env bucket (unquote_plus env k) = Inr body \<and>
      json_loads env body = Inr (PDict kvs) \<and>
      process_record env rcd = Done (Some item) \<and>
      (map_of kvs ''processed_frame_url'' = None \<or>
       (\<exists>u. map_of kvs ''processed_frame_url'' = Some u \<and>
            (\<not> truthy u \<or> u = PStr ''N/A (Processed by SageMaker)''))) \<and>
      s3_generate_presigned_url env bucket
        (PStr (replace ''.json'' ''.jpg''
                 (replace ''inference-results/'' ''extracted-frames/'' (unquote_plus env k))))
        86400 = Inr url \<longrightarrow>
      subscript item ''presignedImageUrl'' = Inr (floats_to_decimals url)) \<and>
   (\<forall>env rcd bucket k body kvs item e.
      notifies rcd bucket (PStr k) \<and>
      s3_get_object env bucket (unquote_plus env k) = Inr body \<and>
      json_loads env body = Inr (PDict kvs) \<and>
      process_record env rcd = Done (Some item) \<and>
      (map_of kvs ''processed_frame_url'' = None \<or>
       (\<exists>u. map_of kvs ''processed_frame_url'' = Some u \<and>
            (\<not> truthy u \<or> u = PStr ''N/A (Processed by SageMaker)''))) \<and>
      s3_generate_presigned_url env bucket
        (PStr (replace ''.json'' ''.jpg''
                 (replace ''inference-results/'' ''extracted-frames/'' (unquote_plus env k))))
        86400 = Inl e \<longrightarrow>
      subscript item ''presignedImageUrl'' = Inr (PStr (''Error generating URL: '' @ message e))) \<and>
   (\<forall>env rcd item.
      process_record env rcd = Done (Some item) \<longrightarrow>
      (\<exists>bucket k body kvs.
         notifies rcd bucket (PStr k) \<and>
         s3_get_object env bucket (unquote_plus env k) = Inr body \<and>
         json_loads env body = Inr (PDict kvs))) \<and>
   (\<forall>mid.
      absent_before ''inference-results/'' (mid @ ''.json'') (length (mid @ ''.json'')) \<and>
      absent_before ''.json'' ((''extracted-frames/'' @ mid) @ ''.json'')
        (length (''extracted-frames/'' @ mid)) \<longrightarrow>
      replace ''.json'' ''.jpg''
        (replace ''inference-results/'' ''extracted-frames/''
           (''inference-results/'' @ mid @ ''.json''))
      = ''extracted-frames/'' @ mid @ ''.jpg'') \<and>
   (\<forall>env rcd item.
      process_record env rcd = Done (Some item) \<longrightarrow>
      (\<exists>vs. item = PDict vs \<and>
         map fst vs = [''video_frame_timestamp'', ''timestamp'', ''videoName'', ''frameNumber'',
                       ''s3Bucket'', ''s3Key'', ''s3ImageKey'', ''presignedImageUrl'',
                       ''outliers'', ''totalDetections'', ''outlierCount'', ''timestampISO'']))"
proof (intro conjI allI impI)
  fix env rcd bucket k body kvs item u
  assume h: "notifies rcd bucket (PStr k) \<and>
      s3_get_object env bucket (unquote_plus env k) = Inr body \<and>
      json_loads env body = Inr (PDict kvs) \<and>
      process_record env rcd = Done (Some item) \<and>
      map_of kvs ''processed_frame_url'' = Some u \<and>
      truthy u \<and> u \<noteq> PStr ''N/A (Processed by SageMaker)''"
  then obtain c ku where c: "inference_data_of c = PDict kvs"
    and r: "resolve_image_url env c = Inr ku"
    and i: "subscript item ''presignedImageUrl'' = Inr (floats_to_decimals (snd ku))"
    using event_url_of_source[of env rcd item bucket k body "PDict kvs"] by blast
  from h c r have "snd ku = u"
    by (auto simp: resolve_image_url_def dict_get_def split: sum.splits prod.splits)
  then show "subscript item ''presignedImageUrl'' = Inr (floats_to_decimals u)"
    using i by simp
next
  fix env rcd bucket k body kvs item url
  assume h: "notifies rcd bucket (PStr k) \<and>
      s3_get_object env bucket (unquote_plus env k) = Inr body \<and>
      json_loads env body = Inr (PDict kvs) \<and>
      process_record env rcd = Done (Some item) \<and>
      (map_of kvs ''processed_frame_url'' = None \<or>
       (\<exists>u. map_of kvs ''processed_frame_url'' = Some u \<and>
            (\<not> truthy u \<or> u = PStr ''N/A (Processed by SageMaker)''))) \<and>
      s3_generate_presigned_url env bucket
        (PStr (replace ''.json'' ''.jpg''
                 (replace ''inference-results/'' ''extracted-frames/'' (unquote_plus env k))))
        86400 = Inr url"
  then obtain c ku where c: "bucket_name_of c = bucket" "object_key_of c = unquote_plus env k"
      "inference_data_of c = PDict kvs"
    and r: "resolve_image_url env c = Inr ku"
    and i: "subscript item ''presignedImageUrl'' = Inr (floats_to_decimals (snd ku))"
    using event_url_of_source[of env rcd item bucket k body "PDict kvs"] by blast
  from h c r have "snd ku = url"
    by (auto simp: resolve_image_url_def dict_get_def Let_def split: if_splits)
  then show "subscript item ''presignedImageUrl'' = Inr (floats_to_decimals url)"
    using i by simp
next
  fix env rcd bucket k body kvs item e
  assume h: "notifies rcd bucket (PStr k) \<and>
      s3_get_object env bucket (unquote_plus env k) = Inr body \<and>
      json_loads env body = Inr (PDict kvs) \<and>
      process_record env rcd = Done (Some item) \<and>
      (map_of kvs ''processed_frame_url'' = None \<or>
       (\<exists>u. map_of kvs ''processed_frame_url'' = Some u \<and>
            (\<not> truthy u \<or> u = PStr ''N/A (Processed by SageMaker)''))) \<and>
      s3_generate_presigned_url env bucket
        (PStr (replace ''.json'' ''.jpg''
                 (replace ''inference-results/'' ''extracted-frames/'' (unquote_plus env k))))
        86400 = Inl e"
  then obtain c ku where c: "bucket_name_of c = bucket" "object_key_of c = unquote_plus env k"
      "inference_data_of c = PDict kvs"
    and r: "resolve_image_url env c = Inr ku"
    and i: "subscript item ''presignedImageUrl'' = Inr (floats_to_decimals (snd ku))"
    using event_url_of_source[of env rcd item bucket k body "PDict kvs"] by blast
  from h c r have "snd ku = PStr (''Error generating URL: '' @ message e)"
    by (auto simp: resolve_image_url_def dict_get_def Let_def split: if_splits)
  then show "subscript item ''presignedImageUrl''
               = Inr (PStr (''Error generating URL: '' @ message e))"
    using i by simp
next
  fix env rcd item
  assume h: "process_record env rcd = Done (Some item)"
  then obtain c where l: "load_record env rcd = Done c"
    using process_record_event by blast
  from load_record_dict[OF l] obtain kvs where "inference_data_of c = PDict kvs" by blast
  with load_record_source[OF l]
  show "\<exists>bucket k body kvs.
         notifies rcd bucket (PStr k) \<and>
         s3_get_object env bucket (unquote_plus env k) = Inr body \<and>
         json_loads env body = Inr (PDict kvs)"
    by auto
next
  fix mid
  assume "absent_before ''inference-results/'' (mid @ ''.json'') (length (mid @ ''.json'')) \<and>
      absent_before ''.json'' ((''extracted-frames/'' @ mid) @ ''.json'')
        (length (''extracted-frames/'' @ mid))"
  then show "replace ''.json'' ''.jpg''
        (replace ''inference-results/'' ''extracted-frames/''
           (''inference-results/'' @ mid @ ''.json''))
      = ''extracted-frames/'' @ mid @ ''.jpg''"
    using frame_image_key_shape by blast
next
  fix env rcd item
  assume h: "process_record env rcd = Done (Some item)"
  then obtain c where "load_record env rcd = Done c"
    using process_record_event by blast
  with h obtain ds ku where "item = floats_to_decimals (item_to_save env c ds ku)"
    using process_record_item by blast
  then show "\<exists>vs. item = PDict vs \<and>
         map fst vs = [''video_frame_timestamp'', ''timestamp'', ''videoName'', ''frameNumber'',
                       ''s3Bucket'', ''s3Key'', ''s3ImageKey'', ''presignedImageUrl'',
                       ''outliers'', ''totalDetections'', ''outlierCount'', ''timestampISO'']"
    using item_field_names by simp
qed

lemmas demo_save =
  process_record_def save_event_def resolve_image_url_def item_to_save_def demo_item_def
  demo_env_no_links_def str_of_def strip_def is_space_def OUTLIER_CLASSES_def

lemma demo_load_frame4:
  "load_record demo_env
     (s3_record (PStr ''results'') (PStr ''inference-results/vid1.mp4/frame_00004.json'')) =
   Done \<lparr> bucket_name_of = PStr ''results'',
          object_key_of = ''inference-results/vid1.mp4/frame_00004.json'',
          inference_data_of = demo_doc_frame4,
          predictions_of = [PDict [(''label'', PStr ''INTRUSION'')]],
          video_name_of = PStr ''vid1.mp4'',
          frame_filename_of = ''frame_00004.json'',
          frame_number_of = PInt 4 \<rparr>"
  by (simp add: demo_run)

lemma demo_load_frame4_no_links:
  "load_record demo_env_no_links
     (s3_record (PStr ''results'') (PStr ''inference-results/vid1.mp4/frame_00004.json'')) =
   Done \<lparr> bucket_name_of = PStr ''results'',
          object_key_of = ''inference-results/vid1.mp4/frame_00004.json'',
          inference_data_of = demo_doc_frame4,
          predictions_of = [PDict [(''label'', PStr ''INTRUSION'')]],
          video_name_of = PStr ''vid1.mp4'',
          frame_filename_of = ''frame_00004.json'',
          frame_number_of = PInt 4 \<rparr>"
  by (simp add: demo_run demo_env_no_links_def)

lemma demo_load_frame5:
  "load_record demo_env
     (s3_record (PStr ''results'') (PStr ''inference-results/vid1.mp4/frame_00005.json'')) =
   Done \<lparr> bucket_name_of = PStr ''results'',
          object_key_of = ''inference-results/vid1.mp4/frame_00005.json'',
          inference_data_of = demo_doc_frame5,
          predictions_of = [PDict [(''label'', PStr ''no_suit''),
                                   (''confidence'', PFloat (Finite (4 / 5)))]],
          video_name_of = PStr ''vid1.mp4'',
          frame_filename_of = ''frame_00005.json'',
          frame_number_of = PInt 5 \<rparr>"
  by (simp add: demo_run)

lemma demo_event_frame4:
  "process_record demo_env
     (s3_record (PStr ''results'') (PStr ''inference-results/vid1.mp4/frame_00004.json'')) =
   Done (Some (demo_item 4 ''frame_00004'' (PStr ''extracted-frames/vid1.mp4/frame_00004.jpg'')
     (PList [PStr ''signed'', PStr ''results'',
             PStr ''extracted-frames/vid1.mp4/frame_00004.jpg'', PInt 86400])
     ''INTRUSION'' (PDecimal (Finite 0)) 1))"
  by (simp add: demo_save demo_run)

lemma demo_event_frame4_no_links:
  "process_record demo_env_no_links
     (s3_record (PStr ''results'') (PStr ''inference-results/vid1.mp4/frame_00004.json'')) =
   Done (Some (demo_item 4 ''frame_00004'' (PStr ''extracted-frames/vid1.mp4/frame_00004.jpg'')
     (PStr ''Error generating URL: NoCredentials'')
     ''INTRUSION'' (PDecimal (Finite 0)) 1))"
  by (simp add: demo_save demo_run)

lemma demo_event_frame5:
  "process_record demo_env
     (s3_record (PStr ''results'') (PStr ''inference-results/vid1.mp4/frame_00005.json'')) =
   Done (Some (demo_item 5 ''frame_00005'' (PStr ''Unknown (from processed_frame_url)'')
     (PStr ''https://frames.example/vid1/5.jpg'')
     ''no_suit'' (PDecimal (Finite (4 / 5))) 1))"
  by (simp add: demo_save demo_run)

theorem stored_image_url_witness:
  "(\<exists>item.
      process_record demo_env
        (s3_record (PStr ''results'') (PStr ''inference-results/vid1.mp4/frame_00005.json''))
        = Done (Some item) \<and>
      subscript item ''presignedImageUrl'' = Inr (PStr ''https://frames.example/vid1/5.jpg'')) \<and>
   (\<exists>item.
      process_record demo_env
        (s3_record (PStr ''results'') (PStr ''inference-results/vid1.mp4/frame_00004.json''))
        = Done (Some item) \<and>
      subscript item ''presignedImageUrl'' =
        Inr (PList [PStr ''signed'', PStr ''results'',
                    PStr ''extracted-frames/vid1.mp4/frame_00004.jpg'', PInt 86400])) \<and>
   (\<exists>item.
      process_record demo_env_no_links
        (s3_record (PStr ''results'') (PStr ''inference-results/vid1.mp4/frame_00004.json''))
        = Done (Some item) \<and>
      subscript item ''presignedImageUrl'' = Inr (PStr ''Error generating URL: NoCredentials'')) \<and>
   (\<exists>bucket k body kvs.
      notifies
        (s3_record (PStr ''results'') (PStr ''inference-results/vid1.mp4/frame_00005.json''))
        bucket (PStr k) \<and>
      s3_get_object demo_env bucket (unquote_plus demo_env k) = Inr body \<and>
      json_loads demo_env body = Inr (PDict kvs)) \<and>
   replace ''.json'' ''.jpg''
     (replace ''inference-results/'' ''extracted-frames/''
        ''inference-results/vid1.mp4/frame_00004.json'')
     = ''extracted-frames/vid1.mp4/frame_00004.jpg'' \<and>
   (\<exists>vs.
      process_record demo_env
        (s3_record (PStr ''results'') (PStr ''inference-results/vid1.mp4/frame_00005.json''))
        = Done (Some (PDict vs)) \<and>
      map fst vs = [''video_frame_timestamp'', ''timestamp'', ''videoName'', ''frameNumber'',
                    ''s3Bucket'', ''s3Key'', ''s3ImageKey'', ''presignedImageUrl'',
                    ''outliers'', ''totalDetections'', ''outlierCount'', ''timestampISO''])"
proof -
  note T = stored_image_url
  let ?key4 = "''inference-results/vid1.mp4/frame_00004.json''"
  let ?key5 = "''inference-results/vid1.mp4/frame_00005.json''"
  let ?rec4 = "s3_record (PStr ''results'') (PStr ?key4)"
  let ?rec5 = "s3_record (PStr ''results'') (PStr ?key5)"
  let ?kvs4 = "[(''video_id'', PStr ''vid1.mp4''), (''frame_number'', PInt 4),
            (''detections'', PList [PDict [(''label'', PStr ''INTRUSION'')]]),
            (''processed_frame_url'', PStr [])]"
  let ?kvs5 = "[(''video_id'', PStr ''vid1.mp4''), (''frame_number'', PInt 5),
            (''detections'',
             PList [PDict [(''label'', PStr ''no_suit''),
                           (''confidence'', PFloat (Finite (4 / 5)))]]),
            (''processed_frame_url'', PStr ''https://frames.example/vid1/5.jpg'')]"
  let ?url4 = "PList [PStr ''signed'', PStr ''results'',
             PStr ''extracted-frames/vid1.mp4/frame_00004.jpg'', PInt 86400]"
  let ?item5 = "demo_item 5 ''frame_00005'' (PStr ''Unknown (from processed_frame_url)'')
       (PStr ''https://frames.example/vid1/5.jpg'') ''no_suit'' (PDecimal (Finite (4 / 5))) 1"
  let ?item4 = "demo_item 4 ''frame_00004'' (PStr ''extracted-frames/vid1.mp4/frame_00004.jpg'')
       ?url4 ''INTRUSION'' (PDecimal (Finite 0)) 1"
  let ?item4e = "demo_item 4 ''frame_00004'' (PStr ''extracted-frames/vid1.mp4/frame_00004.jpg'')
       (PStr ''Error generating URL: NoCredentials'') ''INTRUSION'' (PDecimal (Finite 0)) 1"
  have n4: "notifies ?rec4 (PStr ''results'') (PStr ?key4)"
    and n5: "notifies ?rec5 (PStr ''results'') (PStr ?key5)"
    by (simp_all add: notifies_def s3_record_def subscript_def and_then_def)
  have g4: "s3_get_object demo_env (PStr ''results'') (unquote_plus demo_env ?key4)
              = Inr ''text of frame 4''"
    and g5: "s3_get_object demo_env (PStr ''results'') (unquote_plus demo_env ?key5)
              = Inr ''text of frame 5''"
    and g4e: "s3_get_object demo_env_no_links (PStr ''results'')
                (unquote_plus demo_env_no_links ?key4) = Inr ''text of frame 4''"
    by (simp_all add: demo_env_no_links_def demo_env_def demo_bucket_def)
  have j4: "json_loads demo_env ''text of frame 4'' = Inr (PDict ?kvs4)"
    and j5: "json_loads demo_env ''text of frame 5'' = Inr (PDict ?kvs5)"
    and j4e: "json_loads demo_env_no_links ''text of frame 4'' = Inr (PDict ?kvs4)"
    by (simp_all add: demo_env_no_links_def demo_env_def demo_documents_def demo_doc_frame4_def
          demo_doc_frame5_def)
  have k: "replace ''.json'' ''.jpg''
     (replace ''inference-results/'' ''extracted-frames/'' ?key4)
     = ''extracted-frames/vid1.mp4/frame_00004.jpg''"
    using T[THEN conjunct2, THEN conjunct2, THEN conjunct2, THEN conjunct2, THEN conjunct1,
        rule_format, of "''vid1.mp4/frame_00004''"]
    by (simp add: absent_before_def All_less_Suc)
  have "subscript ?item5 ''presignedImageUrl''
             = Inr (floats_to_decimals (PStr ''https://frames.example/vid1/5.jpg''))"
    by (rule T[THEN conjunct1, rule_format,
          where env = demo_env and rcd = ?rec5 and bucket = "PStr ''results''" and k = ?key5
            and body = "''text of frame 5''" and kvs = ?kvs5])
       (simp add: n5 g5 j5 demo_event_frame5)
  then have a: "\<exists>item. process_record demo_env ?rec5 = Done (Some item) \<and>
      subscript item ''presignedImageUrl'' = Inr (PStr ''https://frames.example/vid1/5.jpg'')"
    using demo_event_frame5 by simp
  have u4: "s3_generate_presigned_url demo_env (PStr ''results'')
        (PStr (replace ''.json'' ''.jpg''
                 (replace ''inference-results/'' ''extracted-frames/''
                    (unquote_plus demo_env ?key4)))) 86400 = Inr ?url4"
    using k by (simp add: demo_env_def)
  have "subscript ?item4 ''presignedImageUrl'' = Inr (floats_to_decimals ?url4)"
    by (rule T[THEN conjunct2, THEN conjunct1, rule_format,
          where env = demo_env and rcd = ?rec4 and bucket = "PStr ''results''" and k = ?key4
            and body = "''text of frame 4''" and kvs = ?kvs4])
       (simp add: n4 g4 j4 demo_event_frame4 u4)
  then have b: "\<exists>item. process_record demo_env ?rec4 = Done (Some item) \<and>
      subscript item ''presignedImageUrl'' = Inr ?url4"
    using demo_event_frame4 by simp
  have u4e: "s3_generate_presigned_url demo_env_no_links (PStr ''results'')
        (PStr (replace ''.json'' ''.jpg''
                 (replace ''inference-results/'' ''extracted-frames/''
                    (unquote_plus demo_env_no_links ?key4)))) 86400
          = Inl (Raised ServiceError ''NoCredentials'')"
    by (simp add: demo_env_no_links_def)
  have "subscript ?item4e ''presignedImageUrl'' =
       Inr (PStr (''Error generating URL: '' @ message (Raised ServiceError ''NoCredentials'')))"
    by (rule T[THEN conjunct2, THEN conjunct2, THEN conjunct1, rule_format,
          where env = demo_env_no_links and rcd = ?rec4 and bucket = "PStr ''results''"
            and k = ?key4 and body = "''text of frame 4''" and kvs = ?kvs4])
       (simp add: n4 g4e j4e demo_event_frame4_no_links u4e)
  then have c: "\<exists>item. process_record demo_env_no_links ?rec4 = Done (Some item) \<and>
      subscript item ''presignedImageUrl'' = Inr (PStr ''Error generating URL: NoCredentials'')"
    using demo_event_frame4_no_links by simp
  have d: "\<exists>bucket k body kvs.
      notifies ?rec5 bucket (PStr k) \<and>
      s3_get_object demo_env bucket (unquote_plus demo_env k) = Inr body \<and>
      json_loads demo_env body = Inr (PDict kvs)"
    by (rule T[THEN conjunct2, THEN conjunct2, THEN conjunct2, THEN conjunct1, rule_format])
       (rule demo_event_frame5)
  have "\<exists>vs. ?item5 = PDict vs \<and>
      map fst vs = [''video_frame_timestamp'', ''timestamp'', ''videoName'', ''frameNumber'',
                    ''s3Bucket'', ''s3Key'', ''s3ImageKey'', ''presignedImageUrl'',
                    ''outliers'', ''totalDetections'', ''outlierCount'', ''timestampISO'']"
    by (rule T[THEN conjunct2, THEN conjunct2, THEN conjunct2, THEN conjunct2, THEN conjunct2,
          rule_format])
       (rule demo_event_frame5)
  then have e: "\<exists>vs. process_record demo_env ?rec5 = Done (Some (PDict vs)) \<and>
      map fst vs = [''video_frame_timestamp'', ''timestamp'', ''videoName'', ''frameNumber'',
                    ''s3Bucket'', ''s3Key'', ''s3ImageKey'', ''presignedImageUrl'',
                    ''outliers'', ''totalDetections'', ''outlierCount'', ''timestampISO'']"
    using demo_event_frame5 by auto
  show ?thesis using a b c d k e by blast
qed

theorem stored_image_url_counterexample:
  "notifies
     (s3_record (PStr ''results'') (PStr ''inference-results/vid1.mp4/frame_00004.json''))
     (PStr ''results'') (PStr ''inference-results/vid1.mp4/frame_00004.json'') \<and>
   s3_get_object demo_env (PStr ''results'')
     (unquote_plus demo_env ''inference-results/vid1.mp4/frame_00004.json'')
     = Inr ''text of frame 4'' \<and>
   json_loads demo_env ''text of frame 4'' =
     Inr (PDict [(''video_id'', PStr ''vid1.mp4''), (''frame_number'', PInt 4),
                 (''detections'', PList [PDict [(''label'', PStr ''INTRUSION'')]]),
                 (''processed_frame_url'', PStr [])]) \<and>
   PStr [] \<noteq> PStr ''N/A (Processed by SageMaker)'' \<and>
   process_record demo_env
     (s3_record (PStr ''results'') (PStr ''inference-results/vid1.mp4/frame_00004.json'')) =
   Done (Some (demo_item 4 ''frame_00004'' (PStr ''extracted-frames/vid1.mp4/frame_00004.jpg'')
     (PList [PStr ''signed'', PStr ''results'',
             PStr ''extracted-frames/vid1.mp4/frame_00004.jpg'', PInt 86400])
     ''INTRUSION'' (PDecimal (Finite 0)) 1)) \<and>
   subscript (demo_item 4 ''frame_00004'' (PStr ''extracted-frames/vid1.mp4/frame_00004.jpg'')
     (PList [PStr ''signed'', PStr ''results'',
             PStr ''extracted-frames/vid1.mp4/frame_00004.jpg'', PInt 86400])
     ''INTRUSION'' (PDecimal (Finite 0)) 1) ''presignedImageUrl'' \<noteq> Inr (PStr [])"
proof -
  have "json_loads demo_env ''text of frame 4'' =
     Inr (PDict [(''video_id'', PStr ''vid1.mp4''), (''frame_number'', PInt 4),
                 (''detections'', PList [PDict [(''label'', PStr ''INTRUSION'')]]),
                 (''processed_frame_url'', PStr [])])"
    by (simp add: demo_env_def demo_documents_def demo_doc_frame4_def)
  moreover have "subscript (demo_item 4 ''frame_00004'' (PStr ''extracted-frames/vid1.mp4/frame_00004.jpg'')
     (PList [PStr ''signed'', PStr ''results'',
             PStr ''extracted-frames/vid1.mp4/frame_00004.jpg'', PInt 86400])
     ''INTRUSION'' (PDecimal (Finite 0)) 1) ''presignedImageUrl'' \<noteq> Inr (PStr [])"
    by (simp add: subscript_def demo_item_def)
  moreover have "s3_get_object demo_env (PStr ''results'')
     (unquote_plus demo_env ''inference-results/vid1.mp4/frame_00004.json'')
     = Inr ''text of frame 4''"
    by (simp add: demo_env_def demo_bucket_def)
  ultimately show ?thesis using demo_event_frame4 by (simp add: notifies_s3_record)
qed

subsection \<open>Querying the table\<close>

lemma and_then_Inr:
  "and_then r f = Inr y \<longleftrightarrow> (\<exists>x. r = Inr x \<and> f x = Inr y)"
  by (cases r) (simp_all add: and_then_def)

lemma table_scan_result:
  assumes "table_scan env limit f = Inr scanned"
  shows "length scanned \<le> nat limit"
    and "set scanned \<subseteq> set (table_items env)"
    and "\<And>c x. f = Some c \<Longrightarrow> x \<in> set scanned \<Longrightarrow> cond_holds c x"
proof -
  from assms have s: "scanned = filter (\<lambda>item. case f of None \<Rightarrow> True | Some c \<Rightarrow> cond_holds c item)
                         (take (nat limit) (table_items env))"
    by (auto simp: table_scan_def split: option.splits if_splits)
  have "length scanned \<le> length (take (nat limit) (table_items env))"
    unfolding s by (rule length_filter_le)
  then show "length scanned \<le> nat limit" by simp
  show "set scanned \<subseteq> set (table_items env)"
    unfolding s by (auto dest: in_set_takeD)
  show "\<And>c x. f = Some c \<Longrightarrow> x \<in> set scanned \<Longrightarrow> cond_holds c x"
    unfolding s by auto
qed

lemma annotated_link_other:
  "k \<noteq> ''presignedAnnotatedImageUrl'' \<Longrightarrow> map_of (annotated_link env kvs) k = map_of kvs k"
  by (simp add: annotated_link_def Let_def update_conv')

lemma original_link_other:
  "k \<noteq> ''presignedImageUrl'' \<Longrightarrow> map_of (original_link env kvs) k = map_of kvs k"
  by (simp add: original_link_def Let_def update_conv')

lemma refresh_links_other:
  assumes "refresh_links env x = Inr y"
    and "k \<noteq> ''presignedImageUrl''" and "k \<noteq> ''presignedAnnotatedImageUrl''"
  shows "subscript y k = subscript x k"
  using assms
  by (cases x) (auto simp: refresh_links_def subscript_def original_link_other annotated_link_other)

lemma refresh_all_result:
  assumes "refresh_all env xs = Inr ys"
  shows "list_all2 (\<lambda>x y. refresh_links env x = Inr y) xs ys"
  using assms
proof (induction xs arbitrary: ys)
  case Nil
  then show ?case by simp
next
  case (Cons x xs)
  then obtain y ys' where "refresh_links env x = Inr y" "refresh_all env xs = Inr ys'" "ys = y # ys'"
    by (auto simp: and_then_Inr)
  then show ?case using Cons.IH by simp
qed

lemma refresh_all_dicts:
  assumes "\<forall>x\<in>set xs. \<exists>kvs. x = PDict kvs"
  shows "\<exists>ys. refresh_all env xs = Inr ys"
  using assms
proof (induction xs)
  case Nil
  then show ?case by simp
next
  case (Cons x xs)
  then obtain kvs ys where "x = PDict kvs" "refresh_all env xs = Inr ys" by auto
  then show ?case by (simp add: and_then_def refresh_links_def)
qed

lemma sorted_newest_numbers:
  assumes "\<forall>x\<in>set xs. key_number (timestamp_key x) \<noteq> None"
  shows "sorted_wrt not_older (rev (sort_key number_key (rev xs)))"
proof -
  have "sorted (map number_key (sort_key number_key (rev xs)))" by simp
  then have "sorted_wrt (\<lambda>a b. number_key a \<le> number_key b) (sort_key number_key (rev xs))"
    by (simp add: sorted_map)
  then have "sorted_wrt (\<lambda>a b. number_key b \<le> number_key a) (rev (sort_key number_key (rev xs)))"
    by (simp add: sorted_wrt_rev)
  moreover have "\<And>a b. a \<in> set xs \<Longrightarrow> b \<in> set xs \<Longrightarrow> number_key b \<le> number_key a \<Longrightarrow> not_older a b"
    using assms by (auto simp: not_older_def number_key_def split: option.splits)
  ultimately show ?thesis
    by (rule sorted_wrt_mono_rel[rotated]) auto
qed

lemma is_string_PStr: "is_string v \<Longrightarrow> \<exists>s. v = PStr s"
  by (cases v) (simp_all add: is_string_def)

lemma sorted_newest_strings:
  assumes "\<forall>x\<in>set xs. is_string (timestamp_key x)"
  shows "sorted_wrt not_older (rev (sort_key string_key (rev xs)))"
proof -
  have "sorted (map string_key (sort_key string_key (rev xs)))" by simp
  then have "sorted_wrt (\<lambda>a b. string_key a \<le> string_key b) (sort_key string_key (rev xs))"
    by (simp add: sorted_map)
  then have "sorted_wrt (\<lambda>a b. string_key b \<le> string_key a) (rev (sort_key string_key (rev xs)))"
    by (simp add: sorted_wrt_rev)
  moreover have "\<And>a b. a \<in> set xs \<Longrightarrow> b \<in> set xs \<Longrightarrow> string_key b \<le> string_key a \<Longrightarrow> not_older a b"
  proof -
    fix a b assume "a \<in> set xs" "b \<in> set xs" and le: "string_key b \<le> string_key a"
    then have "is_string (timestamp_key a)" "is_string (timestamp_key b)"
      using assms by simp_all
    then obtain s t where "timestamp_key a = PStr s" "timestamp_key b = PStr t"
      using is_string_PStr by blast
    then show "not_older a b" using le by (simp add: not_older_def string_key_def)
  qed
  ultimately show ?thesis
    by (rule sorted_wrt_mono_rel[rotated]) auto
qed

lemma three_way:
  assumes "(if a then Inr x else if b then Inr y else if c then Inr z else Inl e) = Inr r"
  shows "(a \<and> r = x) \<or> (\<not> a \<and> b \<and> r = y) \<or> (\<not> a \<and> \<not> b \<and> c \<and> r = z)"
  using assms by (auto split: if_splits)

lemma sort_newest_first_result:
  assumes "sort_newest_first xs = Inr ys"
  shows "set ys = set xs" and "length ys = length xs" and "sorted_wrt not_older ys"
proof -
  have "(length xs \<le> 1 \<and> ys = xs) \<or>
        (\<not> length xs \<le> 1 \<and> (\<forall>x\<in>set xs. key_number (timestamp_key x) \<noteq> None) \<and>
           ys = rev (sort_key number_key (rev xs))) \<or>
        (\<not> length xs \<le> 1 \<and> \<not> (\<forall>x\<in>set xs. key_number (timestamp_key x) \<noteq> None) \<and>
           (\<forall>x\<in>set xs. is_string (timestamp_key x)) \<and>
           ys = rev (sort_key string_key (rev xs)))"
    by (rule three_way) (rule assms[unfolded sort_newest_first_def])
  then have "set ys = set xs \<and> length ys = length xs \<and> sorted_wrt not_older ys"
  proof (elim disjE conjE)
    assume small: "length xs \<le> 1" "ys = xs"
    then have "sorted_wrt not_older xs"
      by (cases xs) (auto simp: le_Suc_eq)
    then show ?thesis using small by simp
  next
    assume "\<forall>x\<in>set xs. key_number (timestamp_key x) \<noteq> None"
      and "ys = rev (sort_key number_key (rev xs))"
    then show ?thesis using sorted_newest_numbers[of xs] by simp
  next
    assume "\<forall>x\<in>set xs. is_string (timestamp_key x)"
      and "ys = rev (sort_key string_key (rev xs))"
    then show ?thesis using sorted_newest_strings[of xs] by simp
  qed
  then show "set ys = set xs" and "length ys = length xs" and "sorted_wrt not_older ys"
    by simp_all
qed

lemma add_filter_holds:
  assumes "add_filter f c = Some g" and "cond_holds g x"
  shows "cond_holds c x" and "\<And>d. f = Some d \<Longrightarrow> cond_holds d x"
  using assms by (auto simp: add_filter_def split: option.splits)

lemma build_filter_video:
  assumes "build_filter env (PStr v) sd ed = Inr f" and "v \<noteq> []"
  shows "\<exists>g. f = Some g \<and> (\<forall>x. cond_holds g x \<longrightarrow> subscript x ''videoName'' = Inr (PStr v))"
  using assms
  by (auto simp: build_filter_def Let_def and_then_Inr add_filter_def split: if_splits)

lemma build_filter_start:
  assumes "build_filter env vn sd ed = Inr f" and "truthy sd" and "py_int env sd = Inr s"
  shows "\<exists>g. f = Some g \<and> (\<forall>x. cond_holds g x \<longrightarrow> cond_holds (Attr_gte ''timestamp'' s) x)"
  using assms
  by (auto simp: build_filter_def Let_def and_then_Inr add_filter_def split: if_splits option.splits)

lemma build_filter_end:
  assumes "build_filter env vn sd ed = Inr f" and "truthy ed" and "py_int env ed = Inr e"
  shows "\<exists>g. f = Some g \<and> (\<forall>x. cond_holds g x \<longrightarrow> cond_holds (Attr_lte ''timestamp'' e) x)"
  using assms
  by (auto simp: build_filter_def Let_def and_then_Inr add_filter_def split: if_splits option.splits)

text \<open>What a successful run of the try block went through.\<close>

lemma fetch_events_steps:
  assumes "fetch_events env (PDict ekvs) = Inr items"
    and "map_of ekvs ''queryStringParameters'' = Some (PDict params)" and "params \<noteq> []"
  shows "\<exists>limit f scanned refreshed.
           py_int env (param params ''limit'' (PInt 50)) = Inr limit \<and>
           build_filter env (param params ''videoName'' PNone) (param params ''startDate'' PNone)
             (param params ''endDate'' PNone) = Inr f \<and>
           table_scan env limit f = Inr scanned \<and>
           refresh_all env scanned = Inr refreshed \<and>
           sort_newest_first refreshed = Inr items"
  using assms
  by (auto simp: fetch_events_def dict_get_def and_then_Inr param_def Let_def
           split: option.splits)

lemma success_body_inject: "success_body xs = success_body ys \<Longrightarrow> xs = ys"
  by (simp add: success_body_def)

lemma handler_success:
  assumes "fetcher_lambda_handler env (PDict ekvs) =
             Inr \<lparr> statusCode = 200, headers = cors_headers,
                   response_body = Dumped (success_body items) \<rparr>"
  shows "fetch_events env (PDict ekvs) = Inr items"
proof (cases "fetch_events env (PDict ekvs)")
  case (Inl e)
  then show ?thesis
    using assms by (auto simp: fetcher_lambda_handler_def and_then_def dict_get_def split: if_splits)
next
  case (Inr items')
  then have "success_body items' = success_body items"
    using assms by (auto simp: fetcher_lambda_handler_def and_then_def dict_get_def split: if_splits)
  then show ?thesis using Inr success_body_inject by simp
qed

lemma list_all2_in_set2:
  assumes "list_all2 P xs ys" and "y \<in> set ys"
  shows "\<exists>x\<in>set xs. P x y"
  using assms by (induction rule: list_all2_induct) auto

lemma fetched_item_origin:
  assumes "fetch_events env (PDict ekvs) = Inr items"
    and "map_of ekvs ''queryStringParameters'' = Some (PDict params)" and "params \<noteq> []"
    and "x \<in> set items"
  shows "\<exists>limit f scanned orig.
           py_int env (param params ''limit'' (PInt 50)) = Inr limit \<and>
           build_filter env (param params ''videoName'' PNone) (param params ''startDate'' PNone)
             (param params ''endDate'' PNone) = Inr f \<and>
           table_scan env limit f = Inr scanned \<and> length items = length scanned \<and>
           orig \<in> set scanned \<and> refresh_links env orig = Inr x"
proof -
  from fetch_events_steps[OF assms(1,2,3)] obtain limit f scanned refreshed where
    s: "py_int env (param params ''limit'' (PInt 50)) = Inr limit"
       "build_filter env (param params ''videoName'' PNone) (param params ''startDate'' PNone)
             (param params ''endDate'' PNone) = Inr f"
       "table_scan env limit f = Inr scanned"
       "refresh_all env scanned = Inr refreshed"
       "sort_newest_first refreshed = Inr items"
    by blast
  have l2: "list_all2 (\<lambda>x y. refresh_links env x = Inr y) scanned refreshed"
    by (rule refresh_all_result[OF s(4)])
  have "x \<in> set refreshed" using sort_newest_first_result(1)[OF s(5)] assms(4) by simp
  then obtain orig where "orig \<in> set scanned" "refresh_links env orig = Inr x"
    using list_all2_in_set2[OF l2] by blast
  moreover have "length items = length scanned"
    using sort_newest_first_result(2)[OF s(5)] list_all2_lengthD[OF l2] by simp
  ultimately show ?thesis using s by blast
qed

text \<open>
  C7, as the code has it. For a query whose videoName parameter is a non-empty string,
  the events of a successful response are at most limit many, each has that videoName,
  each has a number timestamp within the startDate and endDate bounds that are given
  (non-empty), and the list is in descending order of timestamp.
\<close>

theorem fetched_events_filtered_sorted:
  "\<forall>env ekvs params v limit items.
     map_of ekvs ''queryStringParameters'' = Some (PDict params) \<and>
     map_of params ''videoName'' = Some (PStr v) \<and> v \<noteq> [] \<and>
     py_int env (param params ''limit'' (PInt 50)) = Inr limit \<and>
     fetcher_lambda_handler env (PDict ekvs) =
       Inr \<lparr> statusCode = 200, headers = cors_headers,
             response_body = Dumped (success_body items) \<rparr> \<longrightarrow>
     length items \<le> nat limit \<and>
     (\<forall>x\<in>set items. subscript x ''videoName'' = Inr (PStr v)) \<and>
     (\<forall>s. truthy (param params ''startDate'' PNone) \<and>
          py_int env (param params ''startDate'' PNone) = Inr s \<longrightarrow>
          (\<forall>x\<in>set items. timestamp_within (Some s) None x)) \<and>
     (\<forall>e. truthy (param params ''endDate'' PNone) \<and>
          py_int env (param params ''endDate'' PNone) = Inr e \<longrightarrow>
          (\<forall>x\<in>set items. timestamp_within None (Some e) x)) \<and>
     sorted_wrt not_older items"
proof (intro allI impI)
  fix env :: "'a services_scheme" and ekvs params v limit items
  assume h: "map_of ekvs ''queryStringParameters'' = Some (PDict params) \<and>
     map_of params ''videoName'' = Some (PStr v) \<and> v \<noteq> [] \<and>
     py_int env (param params ''limit'' (PInt 50)) = Inr limit \<and>
     fetcher_lambda_handler env (PDict ekvs) =
       Inr \<lparr> statusCode = 200, headers = cors_headers,
             response_body = Dumped (success_body items) \<rparr>"
  then have q: "map_of ekvs ''queryStringParameters'' = Some (PDict params)"
    and ne: "params \<noteq> []" and pv: "param params ''videoName'' PNone = PStr v" and v: "v \<noteq> []"
    and lim: "py_int env (param params ''limit'' (PInt 50)) = Inr limit"
    by (auto simp: param_def)
  from h have fe: "fetch_events env (PDict ekvs) = Inr items"
    using handler_success by blast
  from fetch_events_steps[OF fe q ne] obtain f scanned refreshed where
    s: "build_filter env (PStr v) (param params ''startDate'' PNone)
             (param params ''endDate'' PNone) = Inr f"
       "table_scan env limit f = Inr scanned"
       "refresh_all env scanned = Inr refreshed"
       "sort_newest_first refreshed = Inr items"
    using lim pv by auto
  have l2: "list_all2 (\<lambda>x y. refresh_links env x = Inr y) scanned refreshed"
    by (rule refresh_all_result[OF s(3)])
  have len: "length items \<le> nat limit"
    using sort_newest_first_result(2)[OF s(4)] list_all2_lengthD[OF l2]
      table_scan_result(1)[OF s(2)] by simp
  have origin: "\<exists>orig\<in>set scanned. refresh_links env orig = Inr x" if "x \<in> set items" for x
  proof -
    have "x \<in> set refreshed" using sort_newest_first_result(1)[OF s(4)] that by simp
    then show ?thesis using list_all2_in_set2[OF l2] by blast
  qed
  have vid: "\<forall>x\<in>set items. subscript x ''videoName'' = Inr (PStr v)"
  proof
    fix x assume "x \<in> set items"
    then obtain orig where o: "orig \<in> set scanned" "refresh_links env orig = Inr x"
      using origin by blast
    from build_filter_video[OF s(1) v] obtain g where g: "f = Some g"
      "\<forall>x. cond_holds g x \<longrightarrow> subscript x ''videoName'' = Inr (PStr v)" by blast
    have "cond_holds g orig" using table_scan_result(3)[OF s(2) g(1) o(1)] .
    then have "subscript orig ''videoName'' = Inr (PStr v)" using g(2) by blast
    then show "subscript x ''videoName'' = Inr (PStr v)"
      using refresh_links_other[OF o(2), of "''videoName''"] by simp
  qed
  have lo: "\<forall>x\<in>set items. timestamp_within (Some s') None x"
    if "truthy (param params ''startDate'' PNone)"
      "py_int env (param params ''startDate'' PNone) = Inr s'" for s'
  proof
    fix x assume "x \<in> set items"
    then obtain orig where o: "orig \<in> set scanned" "refresh_links env orig = Inr x"
      using origin by blast
    from build_filter_start[OF s(1) that] obtain g where g: "f = Some g"
      "\<forall>x. cond_holds g x \<longrightarrow> cond_holds (Attr_gte ''timestamp'' s') x" by blast
    have "cond_holds g orig" using table_scan_result(3)[OF s(2) g(1) o(1)] .
    then have "cond_holds (Attr_gte ''timestamp'' s') orig" using g(2) by blast
    then have "timestamp_within (Some s') None orig"
      by (auto simp: timestamp_within_def split: sum.splits option.splits)
    then show "timestamp_within (Some s') None x"
      using refresh_links_other[OF o(2), of "''timestamp''"] by (simp add: timestamp_within_def)
  qed
  have hi: "\<forall>x\<in>set items. timestamp_within None (Some e') x"
    if "truthy (param params ''endDate'' PNone)"
      "py_int env (param params ''endDate'' PNone) = Inr e'" for e'
  proof
    fix x assume "x \<in> set items"
    then obtain orig where o: "orig \<in> set scanned" "refresh_links env orig = Inr x"
      using origin by blast
    from build_filter_end[OF s(1) that] obtain g where g: "f = Some g"
      "\<forall>x. cond_holds g x \<longrightarrow> cond_holds (Attr_lte ''timestamp'' e') x" by blast
    have "cond_holds g orig" using table_scan_result(3)[OF s(2) g(1) o(1)] .
    then have "cond_holds (Attr_lte ''timestamp'' e') orig" using g(2) by blast
    then have "timestamp_within None (Some e') orig"
      by (auto simp: timestamp_within_def split: sum.splits option.splits)
    then show "timestamp_within None (Some e') x"
      using refresh_links_other[OF o(2), of "''timestamp''"] by (simp add: timestamp_within_def)
  qed
  show "length items \<le> nat limit \<and>
     (\<forall>x\<in>set items. subscript x ''videoName'' = Inr (PStr v)) \<and>
     (\<forall>s. truthy (param params ''startDate'' PNone) \<and>
          py_int env (param params ''startDate'' PNone) = Inr s \<longrightarrow>
          (\<forall>x\<in>set items. timestamp_within (Some s) None x)) \<and>
     (\<forall>e. truthy (param params ''endDate'' PNone) \<and>
          py_int env (param params ''endDate'' PNone) = Inr e \<longrightarrow>
          (\<forall>x\<in>set items. timestamp_within None (Some e) x)) \<and>
     sorted_wrt not_older items"
    using len vid lo hi sort_newest_first_result(3)[OF s(4)] by blast
qed

lemmas demo_fetch =
  fetcher_lambda_handler_def fetch_events_def and_then_def dict_get_def get_request_def
  build_filter_def add_filter_def table_scan_def refresh_links_def annotated_link_def
  original_link_def parse_s3_uri_def regenerate_presigned_url_def sort_newest_first_def
  timestamp_key_def number_key_def string_key_def is_string_def success_body_def
  demo_table_def demo_table_no_links_def demo_env_no_links_def demo_env_def demo_locators_def
  demo_event_a_def demo_event_b_def demo_event_c_def demo_event_a_fresh_def
  demo_event_b_fresh_def demo_event_c_fresh_def subscript_def lstrip_slash_def
  is_digit_def int_of_digits_def digit_value_def Let_def

lemma demo_query_vid1:
  "fetcher_lambda_handler demo_table
     (PDict [(''httpMethod'', PStr ''GET''),
             (''queryStringParameters'',
              PDict [(''videoName'', PStr ''vid1''), (''limit'', PStr ''10'')])]) =
   Inr \<lparr> statusCode = 200, headers = cors_headers,
         response_body = Dumped (success_body [demo_event_c_fresh, demo_event_a_fresh]) \<rparr>"
  by (simp add: demo_fetch)

lemma demo_query_dates:
  "fetcher_lambda_handler demo_table
     (PDict [(''httpMethod'', PStr ''GET''),
             (''queryStringParameters'',
              PDict [(''videoName'', PStr ''vid1''), (''startDate'', PStr ''150''),
                     (''endDate'', PStr ''250'')])]) =
   Inr \<lparr> statusCode = 200, headers = cors_headers,
         response_body = Dumped (success_body [demo_event_c_fresh]) \<rparr>"
  by (simp add: demo_fetch)

lemma demo_query_empty_name:
  "fetcher_lambda_handler demo_table
     (PDict [(''httpMethod'', PStr ''GET''),
             (''queryStringParameters'',
              PDict [(''videoName'', PStr []), (''limit'', PStr ''10'')])]) =
   Inr \<lparr> statusCode = 200, headers = cors_headers,
         response_body =
           Dumped (success_body [demo_event_b_fresh, demo_event_c_fresh, demo_event_a_fresh]) \<rparr>"
  by (simp add: demo_fetch)

theorem fetched_events_filtered_sorted_witness:
  "length [demo_event_c_fresh, demo_event_a_fresh] \<le> nat 10 \<and>
   subscript demo_event_c_fresh ''videoName'' = Inr (PStr ''vid1'') \<and>
   subscript demo_event_a_fresh ''videoName'' = Inr (PStr ''vid1'') \<and>
   sorted_wrt not_older [demo_event_c_fresh, demo_event_a_fresh] \<and>
   timestamp_within (Some 150) None demo_event_c_fresh \<and>
   timestamp_within None (Some 250) demo_event_c_fresh"
proof -
  note T = fetched_events_filtered_sorted[rule_format]
  let ?p1 = "[(''videoName'', PStr ''vid1''), (''limit'', PStr ''10'')]"
  let ?p2 = "[(''videoName'', PStr ''vid1''), (''startDate'', PStr ''150''),
              (''endDate'', PStr ''250'')]"
  have i: "py_int demo_table (PStr ''10'') = Inr 10" "py_int demo_table (PStr ''150'') = Inr 150"
    "py_int demo_table (PStr ''250'') = Inr 250" "py_int demo_table (PInt 50) = Inr 50"
    by (simp_all add: demo_table_def demo_env_def is_digit_def int_of_digits_def digit_value_def)
  have a: "length [demo_event_c_fresh, demo_event_a_fresh] \<le> nat 10 \<and>
     (\<forall>x\<in>set [demo_event_c_fresh, demo_event_a_fresh].
        subscript x ''videoName'' = Inr (PStr ''vid1'')) \<and>
     sorted_wrt not_older [demo_event_c_fresh, demo_event_a_fresh]"
    using T[of "[(''httpMethod'', PStr ''GET''), (''queryStringParameters'', PDict ?p1)]"
        ?p1 "''vid1''" demo_table 10 "[demo_event_c_fresh, demo_event_a_fresh]"]
      demo_query_vid1 i
    by (simp add: param_def)
  have b: "timestamp_within (Some 150) None demo_event_c_fresh \<and>
           timestamp_within None (Some 250) demo_event_c_fresh"
    using T[of "[(''httpMethod'', PStr ''GET''), (''queryStringParameters'', PDict ?p2)]"
        ?p2 "''vid1''" demo_table 50 "[demo_event_c_fresh]"]
      demo_query_dates i
    by (simp add: param_def)
  show ?thesis using a b by simp
qed

theorem fetched_events_counterexample:
  "fetcher_lambda_handler demo_table
     (PDict [(''httpMethod'', PStr ''GET''),
             (''queryStringParameters'',
              PDict [(''videoName'', PStr []), (''limit'', PStr ''10'')])]) =
   Inr \<lparr> statusCode = 200, headers = cors_headers,
         response_body =
           Dumped (success_body [demo_event_b_fresh, demo_event_c_fresh, demo_event_a_fresh]) \<rparr> \<and>
   subscript demo_event_b_fresh ''videoName'' = Inr (PStr ''vid2'') \<and>
   subscript demo_event_b_fresh ''videoName'' \<noteq> Inr (PStr [])"
  using demo_query_empty_name by (simp add: demo_event_b_fresh_def subscript_def)

subsection \<open>Regenerated links\<close>

















subsection \<open>The response envelope\<close>

lemma refresh_links_total: "\<exists>kvs'. refresh_links env (PDict kvs) = Inr (PDict kvs')"
  by (simp add: refresh_links_def)

lemma fetch_events_bad_limit:
  assumes "map_of ekvs ''queryStringParameters'' = Some (PDict params)" and "params \<noteq> []"
    and "py_int env (param params ''limit'' (PInt 50)) = Inl e"
  shows "fetch_events env (PDict ekvs) = Inl e"
  using assms
  by (simp add: fetch_events_def dict_get_def and_then_def param_def Let_def)

lemma fetch_events_scan_fails:
  assumes "map_of ekvs ''queryStringParameters'' = Some (PDict params)" and "params \<noteq> []"
    and "py_int env (param params ''limit'' (PInt 50)) = Inr limit"
    and "build_filter env (param params ''videoName'' PNone) (param params ''startDate'' PNone)
           (param params ''endDate'' PNone) = Inr f"
    and "table_scan_error env = Some e"
  shows "fetch_events env (PDict ekvs) = Inl e"
  using assms
  by (simp add: fetch_events_def dict_get_def and_then_def param_def Let_def table_scan_def)

text \<open>
  C6, as the code has it. For every request that is a mapping the handler returns an
  envelope with the CORS headers and status 200 or 500, and does not raise. An OPTIONS
  request gets status 200 and an empty body whatever the parameters and the table are.
  Otherwise, an exception in the try block (parameter parsing, the scan, the sort, the
  serialisation) gives status 500 and the body success false with the message of the
  exception, and a run without exception gives status 200 and the body success true,
  count, events, where count is the number of events. An exception while a link is
  regenerated does not reach the try block: the helper catches it and the item is
  returned as it is.
\<close>

theorem fetcher_envelope:
  "(\<forall>(env :: 'a services_scheme) ekvs.
      \<exists>resp. fetcher_lambda_handler env (PDict ekvs) = Inr resp \<and>
             headers resp = cors_headers \<and> (statusCode resp = 200 \<or> statusCode resp = 500)) \<and>
   (\<forall>(env :: 'a services_scheme) ekvs.
      map_of ekvs ''httpMethod'' = Some (PStr ''OPTIONS'') \<longrightarrow>
      fetcher_lambda_handler env (PDict ekvs) =
        Inr \<lparr> statusCode = 200, headers = cors_headers, response_body = Text [] \<rparr>) \<and>
   (\<forall>(env :: 'a services_scheme) ekvs e.
      map_of ekvs ''httpMethod'' \<noteq> Some (PStr ''OPTIONS'') \<and>
      fetch_events env (PDict ekvs) = Inl e \<longrightarrow>
      fetcher_lambda_handler env (PDict ekvs) =
        Inr \<lparr> statusCode = 500, headers = cors_headers,
              response_body = Dumped (PDict [(''success'', PBool False),
                                             (''error'', PStr (message e))]) \<rparr>) \<and>
   (\<forall>(env :: 'a services_scheme) ekvs items.
      map_of ekvs ''httpMethod'' \<noteq> Some (PStr ''OPTIONS'') \<and>
      fetch_events env (PDict ekvs) = Inr items \<longrightarrow>
      fetcher_lambda_handler env (PDict ekvs) =
        Inr \<lparr> statusCode = 200, headers = cors_headers,
              response_body = Dumped (PDict [(''success'', PBool True),
                                             (''count'', PInt (int (length items))),
                                             (''events'', PList items)]) \<rparr>) \<and>
   (\<forall>(env :: 'a services_scheme) ekvs params e.
      map_of ekvs ''queryStringParameters'' = Some (PDict params) \<and> params \<noteq> [] \<and>
      py_int env (param params ''limit'' (PInt 50)) = Inl e \<longrightarrow>
      fetch_events env (PDict ekvs) = Inl e) \<and>
   (\<forall>(env :: 'a services_scheme) ekvs params limit f e.
      map_of ekvs ''queryStringParameters'' = Some (PDict params) \<and> params \<noteq> [] \<and>
      py_int env (param params ''limit'' (PInt 50)) = Inr limit \<and>
      build_filter env (param params ''videoName'' PNone) (param params ''startDate'' PNone)
        (param params ''endDate'' PNone) = Inr f \<and>
      table_scan_error env = Some e \<longrightarrow>
      fetch_events env (PDict ekvs) = Inl e) \<and>
   (\<forall>(env :: 'a services_scheme) items.
      (\<forall>x\<in>set items. \<exists>kvs. x = PDict kvs) \<longrightarrow>
      (\<exists>refreshed. refresh_all env items = Inr refreshed))"
proof (intro conjI allI impI)
  fix env :: "'a services_scheme" and ekvs
  show "\<exists>resp. fetcher_lambda_handler env (PDict ekvs) = Inr resp \<and>
             headers resp = cors_headers \<and> (statusCode resp = 200 \<or> statusCode resp = 500)"
    by (cases "fetch_events env (PDict ekvs)")
       (simp_all add: fetcher_lambda_handler_def and_then_def dict_get_def)
next
  fix env :: "'a services_scheme" and ekvs
  assume "map_of ekvs ''httpMethod'' = Some (PStr ''OPTIONS'')"
  then show "fetcher_lambda_handler env (PDict ekvs) =
        Inr \<lparr> statusCode = 200, headers = cors_headers, response_body = Text [] \<rparr>"
    by (simp add: fetcher_lambda_handler_def and_then_def dict_get_def)
next
  fix env :: "'a services_scheme" and ekvs e
  assume "map_of ekvs ''httpMethod'' \<noteq> Some (PStr ''OPTIONS'') \<and>
      fetch_events env (PDict ekvs) = Inl e"
  then show "fetcher_lambda_handler env (PDict ekvs) =
        Inr \<lparr> statusCode = 500, headers = cors_headers,
              response_body = Dumped (PDict [(''success'', PBool False),
                                             (''error'', PStr (message e))]) \<rparr>"
    by (auto simp: fetcher_lambda_handler_def and_then_def dict_get_def split: option.splits)
next
  fix env :: "'a services_scheme" and ekvs items
  assume "map_of ekvs ''httpMethod'' \<noteq> Some (PStr ''OPTIONS'') \<and>
      fetch_events env (PDict ekvs) = Inr items"
  then show "fetcher_lambda_handler env (PDict ekvs) =
        Inr \<lparr> statusCode = 200, headers = cors_headers,
              response_body = Dumped (PDict [(''success'', PBool True),
                                             (''count'', PInt (int (length items))),
                                             (''events'', PList items)]) \<rparr>"
    by (auto simp: fetcher_lambda_handler_def and_then_def dict_get_def success_body_def
             split: option.splits)
next
  fix env :: "'a services_scheme" and ekvs params e
  assume "map_of ekvs ''queryStringParameters'' = Some (PDict params) \<and> params \<noteq> [] \<and>
      py_int env (param params ''limit'' (PInt 50)) = Inl e"
  then show "fetch_events env (PDict ekvs) = Inl e"
    using fetch_events_bad_limit by blast
next
  fix env :: "'a services_scheme" and ekvs params limit f e
  assume "map_of ekvs ''queryStringParameters'' = Some (PDict params) \<and> params \<noteq> [] \<and>
      py_int env (param params ''limit'' (PInt 50)) = Inr limit \<and>
      build_filter env (param params ''videoName'' PNone) (param params ''startDate'' PNone)
        (param params ''endDate'' PNone) = Inr f \<and>
      table_scan_error env = Some e"
  then show "fetch_events env (PDict ekvs) = Inl e"
    using fetch_events_scan_fails by blast
next
  fix env :: "'a services_scheme" and items
  assume "\<forall>x\<in>set items. \<exists>kvs. x = PDict kvs"
  then show "\<exists>refreshed. refresh_all env items = Inr refreshed"
    by (rule refresh_all_dicts)
qed

lemma demo_fetch_vid1:
  "fetch_events demo_table
     (PDict [(''httpMethod'', PStr ''GET''),
             (''queryStringParameters'',
              PDict [(''videoName'', PStr ''vid1''), (''limit'', PStr ''10'')])]) =
   Inr [demo_event_c_fresh, demo_event_a_fresh]"
  by (simp add: demo_fetch)

lemma demo_query_all_no_links:
  "fetcher_lambda_handler demo_table_no_links
     (PDict [(''httpMethod'', PStr ''GET''), (''queryStringParameters'', PNone)]) =
   Inr \<lparr> statusCode = 200, headers = cors_headers,
         response_body =
           Dumped (PDict [(''success'', PBool True), (''count'', PInt 3),
                          (''events'', PList [demo_event_b, demo_event_c, demo_event_a])]) \<rparr>"
  by (simp add: demo_fetch)

theorem fetcher_envelope_witness:
  "fetcher_lambda_handler demo_table
     (PDict [(''httpMethod'', PStr ''OPTIONS''), (''queryStringParameters'', PNone)]) =
     Inr \<lparr> statusCode = 200, headers = cors_headers, response_body = Text [] \<rparr> \<and>
   fetcher_lambda_handler demo_table
     (PDict [(''httpMethod'', PStr ''GET''),
             (''queryStringParameters'', PDict [(''limit'', PStr ''abc'')])]) =
     Inr \<lparr> statusCode = 500, headers = cors_headers,
           response_body = Dumped (PDict [(''success'', PBool False),
                                          (''error'', PStr ''invalid literal for int()'')]) \<rparr> \<and>
   fetcher_lambda_handler
     (demo_table \<lparr> table_scan_error := Some (Raised ServiceError ''table not found'') \<rparr>)
     (PDict [(''httpMethod'', PStr ''GET''),
             (''queryStringParameters'', PDict [(''limit'', PStr ''10'')])]) =
     Inr \<lparr> statusCode = 500, headers = cors_headers,
           response_body = Dumped (PDict [(''success'', PBool False),
                                          (''error'', PStr ''table not found'')]) \<rparr> \<and>
   fetcher_lambda_handler demo_table
     (PDict [(''httpMethod'', PStr ''GET''),
             (''queryStringParameters'',
              PDict [(''videoName'', PStr ''vid1''), (''limit'', PStr ''10'')])]) =
     Inr \<lparr> statusCode = 200, headers = cors_headers,
           response_body =
             Dumped (PDict [(''success'', PBool True), (''count'', PInt 2),
                            (''events'', PList [demo_event_c_fresh, demo_event_a_fresh])]) \<rparr> \<and>
   (\<exists>refreshed. refresh_all demo_table_no_links [demo_event_a, demo_event_b] = Inr refreshed)"
proof -
  note T = fetcher_envelope
  let ?bad = "[(''httpMethod'', PStr ''GET''),
               (''queryStringParameters'', PDict [(''limit'', PStr ''abc'')])]"
  let ?ten = "[(''httpMethod'', PStr ''GET''),
               (''queryStringParameters'', PDict [(''limit'', PStr ''10'')])]"
  let ?vid = "[(''httpMethod'', PStr ''GET''),
               (''queryStringParameters'',
                PDict [(''videoName'', PStr ''vid1''), (''limit'', PStr ''10'')])]"
  let ?down = "demo_table \<lparr> table_scan_error := Some (Raised ServiceError ''table not found'') \<rparr>"
  have a: "fetcher_lambda_handler demo_table
     (PDict [(''httpMethod'', PStr ''OPTIONS''), (''queryStringParameters'', PNone)]) =
     Inr \<lparr> statusCode = 200, headers = cors_headers, response_body = Text [] \<rparr>"
    by (rule T[THEN conjunct2, THEN conjunct1, rule_format]) simp
  have "fetch_events demo_table (PDict ?bad)
          = Inl (Raised ValueError ''invalid literal for int()'')"
    by (rule T[THEN conjunct2, THEN conjunct2, THEN conjunct2, THEN conjunct2, THEN conjunct1,
               rule_format, where params = "[(''limit'', PStr ''abc'')]"])
       (simp add: param_def demo_table_def demo_env_def is_digit_def)
  then have b: "fetcher_lambda_handler demo_table (PDict ?bad) =
     Inr \<lparr> statusCode = 500, headers = cors_headers,
           response_body = Dumped (PDict [(''success'', PBool False),
             (''error'', PStr (message (Raised ValueError ''invalid literal for int()'')))]) \<rparr>"
    by (intro T[THEN conjunct2, THEN conjunct2, THEN conjunct1, rule_format]) simp
  have "fetch_events ?down (PDict ?ten) = Inl (Raised ServiceError ''table not found'')"
    by (rule T[THEN conjunct2, THEN conjunct2, THEN conjunct2, THEN conjunct2, THEN conjunct2,
               THEN conjunct1, rule_format,
               where params = "[(''limit'', PStr ''10'')]" and limit = 10 and f = None])
       (simp add: param_def demo_table_def demo_env_def is_digit_def int_of_digits_def
          digit_value_def build_filter_def and_then_def)
  then have c: "fetcher_lambda_handler ?down (PDict ?ten) =
     Inr \<lparr> statusCode = 500, headers = cors_headers,
           response_body = Dumped (PDict [(''success'', PBool False),
             (''error'', PStr (message (Raised ServiceError ''table not found'')))]) \<rparr>"
    by (intro T[THEN conjunct2, THEN conjunct2, THEN conjunct1, rule_format]) simp
  have d: "fetcher_lambda_handler demo_table (PDict ?vid) =
     Inr \<lparr> statusCode = 200, headers = cors_headers,
           response_body =
             Dumped (PDict [(''success'', PBool True),
                            (''count'', PInt (int (length [demo_event_c_fresh, demo_event_a_fresh]))),
                            (''events'', PList [demo_event_c_fresh, demo_event_a_fresh])]) \<rparr>"
    by (intro T[THEN conjunct2, THEN conjunct2, THEN conjunct2, THEN conjunct1, rule_format])
       (simp add: demo_fetch_vid1)
  have e: "\<exists>refreshed. refresh_all demo_table_no_links [demo_event_a, demo_event_b] = Inr refreshed"
    by (rule T[THEN conjunct2, THEN conjunct2, THEN conjunct2, THEN conjunct2, THEN conjunct2,
               THEN conjunct2, rule_format])
       (auto simp: demo_event_a_def demo_event_b_def)
  show ?thesis using a b c d e by simp
qed

theorem link_failure_counterexample:
  "s3_generate_presigned_url demo_table_no_links (PStr ''results'')
     (PStr ''extracted-frames/vid2/frame_7.jpg'') 3600 = Inl (Raised ServiceError ''NoCredentials'') \<and>
   urlparse demo_table_no_links (PStr ''s3://annotated/vid1/frame_3.jpg'')
     = Inr (''annotated'', ''/vid1/frame_3.jpg'') \<and>
   s3_generate_presigned_url demo_table_no_links (PStr ''annotated'') (PStr ''vid1/frame_3.jpg'') 3600
     = Inl (Raised ServiceError ''NoCredentials'') \<and>
   table_items demo_table_no_links = [demo_event_a, demo_event_b, demo_event_c] \<and>
   fetcher_lambda_handler demo_table_no_links
     (PDict [(''httpMethod'', PStr ''GET''), (''queryStringParameters'', PNone)]) =
   Inr \<lparr> statusCode = 200, headers = cors_headers,
         response_body =
           Dumped (PDict [(''success'', PBool True), (''count'', PInt 3),
                          (''events'', PList [demo_event_b, demo_event_c, demo_event_a])]) \<rparr>"
  using demo_query_all_no_links
  by (simp add: demo_table_no_links_def demo_env_no_links_def demo_env_def demo_locators_def)

subsection \<open>Annotating a frame\<close>

lemma and_then_Inl: "and_then (Inl e) f = Inl e"
  by (simp add: and_then_def)

lemma and_then_value: "and_then (Inr x) f = f x"
  by (simp add: and_then_def)

lemma draw_detections_append:
  "draw_detections lib im (xs @ ys) =
     and_then (draw_detections lib im xs) (\<lambda>im'. draw_detections lib im' ys)"
proof (induction xs arbitrary: im)
  case Nil
  show ?case by (simp add: and_then_value)
next
  case (Cons det xs)
  show ?case
    by (simp add: Cons.IH and_then_def split: sum.splits)
qed

lemma box_unusable_skip:
  assumes "box_unusable det"
  shows "draw_detections lib im (det # rest) = draw_detections lib im rest"
proof -
  from assms obtain kvs where d: "det = PDict kvs"
    by (cases det) (simp_all add: box_unusable_def)
  show ?thesis
  proof (cases "map_of kvs ''bbox''")
    case None
    then show ?thesis by (simp add: d dict_get_def box_invalid_def and_then_value)
  next
    case (Some box)
    with assms d have "\<not> truthy box \<or> (\<exists>n. py_len box = Inr n \<and> n \<noteq> 4)"
      by (auto simp: box_unusable_def split: sum.splits)
    then have "box_invalid box = Inr True"
      by (auto simp: box_invalid_def and_then_value)
    then show ?thesis by (simp add: d dict_get_def Some and_then_value)
  qed
qed

lemma draw_detections_skip_anywhere:
  assumes "box_unusable det"
  shows "draw_detections lib im (before @ det # rest) = draw_detections lib im (before @ rest)"
  by (simp only: draw_detections_append [of lib im before] box_unusable_skip [OF assms])

lemma draw_detections_usable_only:
  "draw_detections lib im dets = draw_detections lib im (filter (\<lambda>d. \<not> box_unusable d) dets)"
proof (induction dets arbitrary: im)
  case Nil
  show ?case by simp
next
  case (Cons det dets)
  let ?usable = "filter (\<lambda>d. \<not> box_unusable d) dets"
  show ?case
  proof (cases "box_unusable det")
    case True
    have "draw_detections lib im (det # dets) = draw_detections lib im dets"
      by (rule box_unusable_skip[OF True])
    also have "\<dots> = draw_detections lib im ?usable"
      by (rule Cons.IH)
    finally show ?thesis using True by (simp del: draw_detections.simps)
  next
    case False
    have "draw_detections lib im (det # dets) =
            and_then (draw_detections lib im [det]) (\<lambda>im'. draw_detections lib im' dets)"
      using draw_detections_append[of lib im "[det]" dets]
      by (simp del: draw_detections.simps)
    also have "\<dots> = and_then (draw_detections lib im [det])
                       (\<lambda>im'. draw_detections lib im' ?usable)"
      using Cons.IH by (simp del: draw_detections.simps)
    also have "\<dots> = draw_detections lib im (det # ?usable)"
      using draw_detections_append[of lib im "[det]" ?usable]
      by (simp del: draw_detections.simps)
    finally show ?thesis using False by (simp del: draw_detections.simps)
  qed
qed

lemma draw_boxes_cases:
  "draw_boxes lib image_bytes detections = image_bytes \<or>
   (\<exists>im dets drawn. Image_open lib image_bytes = Inr im \<and> py_iter detections = Inr dets \<and>
      draw_detections lib im dets = Inr drawn \<and>
      save_jpeg lib drawn = Inr (draw_boxes lib image_bytes detections))"
  by (auto simp: draw_boxes_def draw_boxes_body_def and_then_def split: sum.splits)

lemma draw_boxes_body_list:
  "draw_boxes_body lib image_bytes (PList dets) =
     and_then (Image_open lib image_bytes) (\<lambda>im.
     and_then (draw_detections lib im dets) (\<lambda>drawn. save_jpeg lib drawn))"
  by (simp add: draw_boxes_body_def and_then_value)

text \<open>
  C9. The annotation gives back either the bytes it was given or the bytes that saving
  the drawn image produced, so it has a result on every input. A detection whose box is
  absent, falsy or of a length other than four is passed over wherever it stands: the
  drawing, and so the result, is that of the list without such detections. When opening
  the image, walking the detections, drawing one of them or saving raises, the result is
  the bytes that were given. When the given bytes are a valid image and saving only
  produces valid images, the result is a valid image.
\<close>

theorem annotation_never_fails:
  "(\<forall>(lib :: 'img pil) image_bytes detections.
      draw_boxes lib image_bytes detections = image_bytes \<or>
      (\<exists>im dets drawn.
         Image_open lib image_bytes = Inr im \<and> py_iter detections = Inr dets \<and>
         draw_detections lib im dets = Inr drawn \<and>
         save_jpeg lib drawn = Inr (draw_boxes lib image_bytes detections))) \<and>
   (\<forall>(lib :: 'img pil) im before det rest.
      box_unusable det \<longrightarrow>
      draw_detections lib im (before @ det # rest) = draw_detections lib im (before @ rest)) \<and>
   (\<forall>(lib :: 'img pil) image_bytes before det rest.
      box_unusable det \<longrightarrow>
      draw_boxes lib image_bytes (PList (before @ det # rest)) =
        draw_boxes lib image_bytes (PList (before @ rest))) \<and>
   (\<forall>(lib :: 'img pil) image_bytes dets.
      draw_boxes lib image_bytes (PList dets) =
        draw_boxes lib image_bytes (PList (filter (\<lambda>d. \<not> box_unusable d) dets))) \<and>
   (\<forall>(lib :: 'img pil) image_bytes detections e.
      Image_open lib image_bytes = Inl e \<longrightarrow>
      draw_boxes lib image_bytes detections = image_bytes) \<and>
   (\<forall>(lib :: 'img pil) image_bytes detections e.
      py_iter detections = Inl e \<longrightarrow>
      draw_boxes lib image_bytes detections = image_bytes) \<and>
   (\<forall>(lib :: 'img pil) image_bytes im before det rest drawn e.
      Image_open lib image_bytes = Inr im \<and>
      draw_detections lib im before = Inr drawn \<and>
      draw_detections lib drawn [det] = Inl e \<longrightarrow>
      draw_boxes lib image_bytes (PList (before @ det # rest)) = image_bytes) \<and>
   (\<forall>(lib :: 'img pil) image_bytes im dets drawn e.
      Image_open lib image_bytes = Inr im \<and>
      draw_detections lib im dets = Inr drawn \<and>
      save_jpeg lib drawn = Inl e \<longrightarrow>
      draw_boxes lib image_bytes (PList dets) = image_bytes) \<and>
   (\<forall>(lib :: 'img pil) image_bytes im dets drawn out.
      Image_open lib image_bytes = Inr im \<and>
      draw_detections lib im dets = Inr drawn \<and>
      save_jpeg lib drawn = Inr out \<longrightarrow>
      draw_boxes lib image_bytes (PList dets) = out) \<and>
   (\<forall>(lib :: 'img pil) valid image_bytes detections.
      valid image_bytes \<and> (\<forall>im out. save_jpeg lib im = Inr out \<longrightarrow> valid out) \<longrightarrow>
      valid (draw_boxes lib image_bytes detections))"
proof (intro conjI allI impI)
  fix lib :: "'img pil" and image_bytes detections
  show "draw_boxes lib image_bytes detections = image_bytes \<or>
      (\<exists>im dets drawn.
         Image_open lib image_bytes = Inr im \<and> py_iter detections = Inr dets \<and>
         draw_detections lib im dets = Inr drawn \<and>
         save_jpeg lib drawn = Inr (draw_boxes lib image_bytes detections))"
    by (rule draw_boxes_cases)
next
  fix lib :: "'img pil" and im before det rest
  assume "box_unusable det"
  then show "draw_detections lib im (before @ det # rest) = draw_detections lib im (before @ rest)"
    by (rule draw_detections_skip_anywhere)
next
  fix lib :: "'img pil" and image_bytes before det rest
  assume "box_unusable det"
  then show "draw_boxes lib image_bytes (PList (before @ det # rest)) =
        draw_boxes lib image_bytes (PList (before @ rest))"
    by (simp add: draw_boxes_def draw_boxes_body_list draw_detections_skip_anywhere)
next
  fix lib :: "'img pil" and image_bytes dets
  have "draw_boxes_body lib image_bytes (PList dets) =
        draw_boxes_body lib image_bytes (PList (filter (\<lambda>d. \<not> box_unusable d) dets))"
    unfolding draw_boxes_body_list
    using draw_detections_usable_only[of lib _ dets] by simp
  then show "draw_boxes lib image_bytes (PList dets) =
        draw_boxes lib image_bytes (PList (filter (\<lambda>d. \<not> box_unusable d) dets))"
    by (simp add: draw_boxes_def)
next
  fix lib :: "'img pil" and image_bytes detections e
  assume "Image_open lib image_bytes = Inl e"
  then show "draw_boxes lib image_bytes detections = image_bytes"
    by (simp add: draw_boxes_def draw_boxes_body_def and_then_Inl)
next
  fix lib :: "'img pil" and image_bytes detections e
  assume "py_iter detections = Inl e"
  then show "draw_boxes lib image_bytes detections = image_bytes"
    by (simp add: draw_boxes_def draw_boxes_body_def and_then_def split: sum.splits)
next
  fix lib :: "'img pil" and image_bytes im before det rest drawn e
  assume h: "Image_open lib image_bytes = Inr im \<and>
      draw_detections lib im before = Inr drawn \<and>
      draw_detections lib drawn [det] = Inl e"
  have "draw_detections lib im (before @ [det] @ rest) = Inl e"
    using h by (simp only: draw_detections_append and_then_value and_then_Inl)
  then show "draw_boxes lib image_bytes (PList (before @ det # rest)) = image_bytes"
    using h by (simp add: draw_boxes_def draw_boxes_body_list and_then_value and_then_Inl)
next
  fix lib :: "'img pil" and image_bytes im dets drawn e
  assume "Image_open lib image_bytes = Inr im \<and>
      draw_detections lib im dets = Inr drawn \<and>
      save_jpeg lib drawn = Inl e"
  then show "draw_boxes lib image_bytes (PList dets) = image_bytes"
    by (simp add: draw_boxes_def draw_boxes_body_list and_then_value)
next
  fix lib :: "'img pil" and image_bytes im dets drawn out
  assume "Image_open lib image_bytes = Inr im \<and>
      draw_detections lib im dets = Inr drawn \<and>
      save_jpeg lib drawn = Inr out"
  then show "draw_boxes lib image_bytes (PList dets) = out"
    by (simp add: draw_boxes_def draw_boxes_body_list and_then_value)
next
  fix lib :: "'img pil" and valid :: "string \<Rightarrow> bool" and image_bytes detections
  assume h: "valid image_bytes \<and> (\<forall>im out. save_jpeg lib im = Inr out \<longrightarrow> valid out)"
  from draw_boxes_cases[of lib image_bytes detections]
  show "valid (draw_boxes lib image_bytes detections)"
    using h by auto
qed

lemmas demo_draw =
  draw_boxes_def draw_boxes_body_def and_then_def dict_get_def box_invalid_def
  draw_detection_def box_color_def as_str_def demo_pil_def demo_corner_def demo_is_image_def
  startswith_def demo_det_helmet_def demo_det_suit_def demo_det_no_box_def
  demo_det_short_box_def demo_det_number_box_def Let_def

lemma demo_draw_two:
  "draw_boxes demo_pil ''PNG1'' (PList [demo_det_helmet, demo_det_suit]) = ''JFIFFPCFPC''"
  by (simp add: demo_draw)

lemma demo_drawn_helmet:
  "draw_detections demo_pil \<lparr> opened_from = ''PNG1'', shapes = [] \<rparr> [demo_det_helmet] =
   Inr \<lparr> opened_from = ''PNG1'',
         shapes = [Frame (PList [PInt 10, PInt 20, PInt 110, PInt 220]) ''yellow'',
                   Patch (10, 18, 74, 33) ''yellow'', Caption 18 ''helmet (%)''] \<rparr>"
  by (simp add: demo_draw)

theorem annotation_never_fails_witness:
  "draw_boxes demo_pil ''PNG1''
     (PList [demo_det_helmet, demo_det_no_box, demo_det_short_box, demo_det_suit]) =
     ''JFIFFPCFPC'' \<and>
   draw_boxes demo_pil ''PNG1'' (PList [demo_det_helmet, demo_det_suit]) = ''JFIFFPCFPC'' \<and>
   draw_boxes demo_pil ''PNG1'' (PList [demo_det_helmet, demo_det_number_box, demo_det_suit]) =
     ''PNG1'' \<and>
   draw_boxes demo_pil ''not an image'' (PList [demo_det_helmet, demo_det_suit]) =
     ''not an image'' \<and>
   draw_boxes demo_pil ''PNG1'' PNone = ''PNG1'' \<and>
   demo_is_image
     (draw_boxes demo_pil ''PNG1''
        (PList [demo_det_helmet, demo_det_no_box, demo_det_short_box, demo_det_suit]))"
proof -
  note T = annotation_never_fails
  let ?all = "[demo_det_helmet, demo_det_no_box, demo_det_short_box, demo_det_suit]"
  have nb: "box_unusable demo_det_no_box" and sb: "box_unusable demo_det_short_box"
    by (simp_all add: box_unusable_def demo_det_no_box_def demo_det_short_box_def)
  have "draw_boxes demo_pil ''PNG1'' (PList ([demo_det_helmet] @ demo_det_no_box #
            [demo_det_short_box, demo_det_suit])) =
        draw_boxes demo_pil ''PNG1'' (PList ([demo_det_helmet] @
            [demo_det_short_box, demo_det_suit]))"
    by (rule T[THEN conjunct2, THEN conjunct2, THEN conjunct1, rule_format, OF nb])
  moreover have "draw_boxes demo_pil ''PNG1'' (PList ([demo_det_helmet] @ demo_det_short_box #
            [demo_det_suit])) =
        draw_boxes demo_pil ''PNG1'' (PList ([demo_det_helmet] @ [demo_det_suit]))"
    by (rule T[THEN conjunct2, THEN conjunct2, THEN conjunct1, rule_format, OF sb])
  ultimately have a: "draw_boxes demo_pil ''PNG1'' (PList ?all) = ''JFIFFPCFPC''"
    using demo_draw_two by simp
  have b: "draw_boxes demo_pil ''PNG1''
             (PList ([demo_det_helmet] @ demo_det_number_box # [demo_det_suit])) = ''PNG1''"
    by (rule T[THEN conjunct2, THEN conjunct2, THEN conjunct2, THEN conjunct2, THEN conjunct2,
               THEN conjunct2, THEN conjunct1, rule_format,
               where im = "\<lparr> opened_from = ''PNG1'', shapes = [] \<rparr>"
                 and drawn = "\<lparr> opened_from = ''PNG1'',
                   shapes = [Frame (PList [PInt 10, PInt 20, PInt 110, PInt 220]) ''yellow'',
                             Patch (10, 18, 74, 33) ''yellow'', Caption 18 ''helmet (%)''] \<rparr>"
                 and e = "Raised TypeError ''object has no len()''"])
       (simp add: demo_drawn_helmet, simp add: demo_draw)
  have c: "draw_boxes demo_pil ''not an image'' (PList [demo_det_helmet, demo_det_suit]) =
     ''not an image''"
    by (rule T[THEN conjunct2, THEN conjunct2, THEN conjunct2, THEN conjunct2, THEN conjunct1,
               rule_format, where e = "Raised ValueError ''cannot identify image file''"])
       (simp add: demo_pil_def demo_is_image_def startswith_def)
  have d: "draw_boxes demo_pil ''PNG1'' PNone = ''PNG1''"
    by (rule T[THEN conjunct2, THEN conjunct2, THEN conjunct2, THEN conjunct2, THEN conjunct2,
               THEN conjunct1, rule_format,
               where e = "Raised TypeError ''object is not iterable''"])
       simp
  have e: "demo_is_image (draw_boxes demo_pil ''PNG1'' (PList ?all))"
    by (rule T[THEN conjunct2, THEN conjunct2, THEN conjunct2, THEN conjunct2, THEN conjunct2,
               THEN conjunct2, THEN conjunct2, THEN conjunct2, THEN conjunct2, rule_format])
       (simp add: demo_is_image_def demo_pil_def startswith_def)
  show ?thesis using a b c d e demo_draw_two by simp
qed

end
